theory Spec2Isabelle
  imports Complex_Main
begin

section \<open>Exceptions\<close>

text \<open>
  The exceptions that \<^verbatim>\<open>transferMatrix.py\<close> can raise. \<open>AssertionError\<close> is raised by the
  \<^verbatim>\<open>assert\<close> statement (the specification calls it InvalidArgumentError),
  \<open>LinAlgError\<close> by \<^verbatim>\<open>numpy.linalg.inv\<close> and \<^verbatim>\<open>numpy.linalg.solve\<close> when the
  factorisation meets a zero pivot, in exact arithmetic on a singular matrix
  (SingularMatrixError and SingularSystemError in the specification), and
  \<open>ZeroDivisionError\<close> by a division of Python scalars by zero.
\<close>

datatype error = AssertionError | ZeroDivisionError | LinAlgError

section \<open>The numpy operations used by the module\<close>

text \<open>
  A two-dimensional array is a list of rows, a one-dimensional array a list of entries.
  The entries are exact field elements (\<open>real\<close> for a real array, \<open>complex\<close> for a complex
  one): rounding is not part of the model, so "equal within floating tolerance" reads
  "equal". No function of the module writes into an existing array (every
  \<^verbatim>\<open>numpy\<close> call below returns a new one), so arrays are plain values.
\<close>

definition identity :: "nat \<Rightarrow> 'a::field list list" where
  "identity n = map (\<lambda>i. map (\<lambda>j. if i = j then 1 else 0) [0..<n]) [0..<n]"

definition zeros :: "nat \<times> nat \<Rightarrow> 'a::field list list" where
  "zeros shape = replicate (fst shape) (replicate (snd shape) 0)"

definition hstack :: "'a list list \<times> 'a list list \<Rightarrow> 'a list list" where
  "hstack tup = map2 (@) (fst tup) (snd tup)"

definition vstack :: "'a list list \<times> 'a list list \<Rightarrow> 'a list list" where
  "vstack tup = fst tup @ snd tup"

text \<open>\<^verbatim>\<open>numpy.dot\<close> of two 2-D arrays: the matrix product, each row against each column.\<close>

definition dot :: "'a::field list list \<Rightarrow> 'a list list \<Rightarrow> 'a list list" where
  "dot a b = map (\<lambda>row. map (\<lambda>col. sum_list (map2 (*) row col)) (transpose b)) a"

definition del_col :: "nat \<Rightarrow> 'a list list \<Rightarrow> 'a list list" where
  "del_col j a = map (\<lambda>row. take j row @ drop (Suc j) row) a"

definition del_row :: "nat \<Rightarrow> 'a list list \<Rightarrow> 'a list list" where
  "del_row i a = take i a @ drop (Suc i) a"

text \<open>The determinant, expanded along the first row.\<close>

function det :: "'a::field list list \<Rightarrow> 'a" where
  "det [] = 1"
| "det (r # rs) = (\<Sum>j\<leftarrow>[0..<length r]. (- 1) ^ j * r ! j * det (del_col j rs))"
  by pat_completeness auto
termination
  by (relation "measure length") (auto simp: del_col_def)

text \<open>
  \<^verbatim>\<open>numpy.linalg.inv\<close> and \<^verbatim>\<open>numpy.linalg.solve\<close> are library routines (LAPACK's
  \<^verbatim>\<open>gesv\<close>: an LU factorisation with partial pivoting that raises \<open>LinAlgError\<close> when a
  computed pivot is zero). \<open>inv\<close> and \<open>solve\<close> below are these routines in exact
  arithmetic: there a pivot is zero exactly when the determinant is, the inverse and
  the solution of \<open>a x = b\<close> are unique, and the model computes them by the adjugate and
  by Cramer's rule. Floating point differs on the error path, which this model does not
  describe: a pivot can underflow to zero on a nonsingular matrix (the multiplier
  \<open>2\<^sup>-\<^sup>5\<^sup>4\<^sup>0 / 2\<^sup>5\<^sup>4\<^sup>0\<close> does, in double precision), and rounding can leave
  a nonzero pivot on a singular one. What the theorems say about \<open>LinAlgError\<close> is
  therefore a statement about exact arithmetic, not about which floating-point inputs
  raise.
\<close>

definition inv :: "'a::field list list \<Rightarrow> error + 'a list list" where
  "inv a =
     (if det a = 0 then Inl LinAlgError
      else Inr (map (\<lambda>i. map (\<lambda>j. (- 1) ^ (i + j) * det (del_col i (del_row j a)) / det a)
                             [0..<length a])
                    [0..<length a]))"

definition solve :: "'a::field list list \<Rightarrow> 'a list \<Rightarrow> error + 'a list" where
  "solve a b =
     (if det a = 0 then Inl LinAlgError
      else Inr (map (\<lambda>j. det (map2 (\<lambda>row bi. row[j := bi]) a b) / det a) [0..<length a]))"

section \<open>The class \<open>TransferMatrix\<close>\<close>

text \<open>
  An instance has one attribute, \<^verbatim>\<open>matrix\<close>, which by the data model is always a 2x2
  array. The functions of this section take and return instances as values; the section
  on object identity below repeats those that a frame property is stated for with
  references into a store.
\<close>

record TransferMatrix =
  matrix :: "complex list list"

text \<open>
  \<^verbatim>\<open>structure(*args)\<close>: \<^verbatim>\<open>mat = identity(2)\<close>, then \<^verbatim>\<open>mat = numpy.dot(m.matrix, mat)\<close>
  for each \<^verbatim>\<open>m\<close> of \<^verbatim>\<open>args\<close> in order.
\<close>

definition "structure" :: "TransferMatrix list \<Rightarrow> TransferMatrix" where
  "structure args = \<lparr>matrix = foldl (\<lambda>mat m. dot (matrix m) mat) (identity 2) args\<rparr>"

text \<open>
  \<^verbatim>\<open>layer\<close>, \<^verbatim>\<open>boundingLayer\<close> and \<^verbatim>\<open>propagationLayer\<close> on Python scalars: a
  division by \<^verbatim>\<open>2*n\<close>, \<^verbatim>\<open>2*n2\<close> or \<^verbatim>\<open>wavelength\<close> equal to zero raises.
\<close>

definition layer :: "complex \<Rightarrow> real \<Rightarrow> real \<Rightarrow> error + TransferMatrix" where
  "layer n d wavelength =
     (if 2 * n = 0 \<or> wavelength = 0 then Inl ZeroDivisionError
      else
        let bottomBoundary = [[(1 + n) / (2 * n), (n - 1) / (2 * n)],
                              [(n - 1) / (2 * n), (1 + n) / (2 * n)]];
            topBoundary = [[(1 + n) / 2, - (n - 1) / 2], [- (n - 1) / 2, (1 + n) / 2]];
            propagation =
              [[exp (- \<i> * n * of_real d * 2 * of_real pi / of_real wavelength), 0],
               [0, exp (\<i> * n * of_real d * 2 * of_real pi / of_real wavelength)]]
        in Inr (structure [\<lparr>matrix = bottomBoundary\<rparr>, \<lparr>matrix = propagation\<rparr>,
                           \<lparr>matrix = topBoundary\<rparr>]))"

definition boundingLayer :: "complex \<Rightarrow> complex \<Rightarrow> error + TransferMatrix" where
  "boundingLayer n1 n2 =
     (if 2 * n2 = 0 then Inl ZeroDivisionError
      else
        let leftBoundary = [[(n1 + n2) / (2 * n2), (n2 - n1) / (2 * n2)],
                            [(n2 - n1) / (2 * n2), (n1 + n2) / (2 * n2)]]
        in Inr \<lparr>matrix = leftBoundary\<rparr>)"

definition propagationLayer :: "complex \<Rightarrow> real \<Rightarrow> real \<Rightarrow> error + TransferMatrix" where
  "propagationLayer n d wavelength =
     (if wavelength = 0 then Inl ZeroDivisionError
      else
        let propagation =
              [[exp (- \<i> * n * of_real d * 2 * of_real pi / of_real wavelength), 0],
               [0, exp (\<i> * n * of_real d * 2 * of_real pi / of_real wavelength)]]
        in Inr \<lparr>matrix = propagation\<rparr>)"

section \<open>The forward solver\<close>

definition solvePropagation :: "TransferMatrix \<Rightarrow> complex \<Rightarrow> error + complex \<times> complex" where
  "solvePropagation transferMatrix incidentField =
     (let lhs = [[matrix transferMatrix ! 0 ! 1, - 1],
                 [matrix transferMatrix ! 1 ! 1, 0]];
          rhs = [- (matrix transferMatrix ! 0 ! 0), - (matrix transferMatrix ! 1 ! 0)];
          rhs = map (\<lambda>x. x * incidentField) rhs
      in case solve lhs rhs of
           Inl e \<Rightarrow> Inl e
         | Inr res \<Rightarrow>
             let reflectance = res ! 0;
                 transmittance = res ! 1
             in Inr (reflectance, transmittance))"

section \<open>The inverse solvers\<close>

text \<open>
  The default value of every \<^verbatim>\<open>bottomMat\<close> and \<^verbatim>\<open>topMat\<close> parameter is
  \<^verbatim>\<open>TransferMatrix(numpy.identity(2))\<close>.
\<close>

definition default_bounding :: TransferMatrix where
  "default_bounding = \<lparr>matrix = identity 2\<rparr>"

definition findReciprocalTransferMatrix ::
  "complex \<Rightarrow> complex \<Rightarrow> TransferMatrix \<Rightarrow> TransferMatrix \<Rightarrow> error + TransferMatrix" where
  "findReciprocalTransferMatrix transmittance reflectance bottomMat topMat =
     (if \<not> transmittance \<noteq> 0 then Inl AssertionError
      else
        let matrix0 = [[1 / cnj transmittance, reflectance / transmittance],
                       [cnj (reflectance / transmittance), 1 / transmittance]]
        in case inv (matrix bottomMat) of
             Inl e \<Rightarrow> Inl e
           | Inr bottomInv \<Rightarrow>
               let matrix1 = dot bottomInv matrix0
               in (case inv (matrix topMat) of
                     Inl e \<Rightarrow> Inl e
                   | Inr topInv \<Rightarrow> Inr \<lparr>matrix = dot matrix1 topInv\<rparr>))"

definition findReciprocalTransferMatrixLegacy ::
  "complex \<Rightarrow> complex \<Rightarrow> TransferMatrix \<Rightarrow> TransferMatrix \<Rightarrow> error + TransferMatrix" where
  "findReciprocalTransferMatrixLegacy transmittance reflectance bottomMat topMat =
     (let a = identity 2;
          b = [[Re reflectance, Im reflectance], [Im reflectance, - Re reflectance]];
          lhs = vstack (hstack (a, b), hstack (b, a));
          rhs = [Re transmittance, Im transmittance, 0, 0]
      in case solve lhs rhs of
           Inl e \<Rightarrow> Inl e
         | Inr res \<Rightarrow>
             let matrix0 =
                   [[of_real (res ! 0) + \<i> * of_real (res ! 1),
                     of_real (res ! 2) - \<i> * of_real (res ! 3)],
                    [of_real (res ! 2) + \<i> * of_real (res ! 3),
                     of_real (res ! 0) - \<i> * of_real (res ! 1)]]
             in (case inv (matrix bottomMat) of
                   Inl e \<Rightarrow> Inl e
                 | Inr bottomInv \<Rightarrow>
                     let matrix1 = dot bottomInv matrix0
                     in (case inv (matrix topMat) of
                           Inl e \<Rightarrow> Inl e
                         | Inr topInv \<Rightarrow> Inr \<lparr>matrix = dot matrix1 topInv\<rparr>)))"

definition findGeneralizedTransferMatrix ::
  "complex \<Rightarrow> complex \<Rightarrow> complex \<Rightarrow> complex \<Rightarrow>
   TransferMatrix \<Rightarrow> TransferMatrix \<Rightarrow> TransferMatrix \<Rightarrow> TransferMatrix \<Rightarrow>
   error + TransferMatrix" where
  "findGeneralizedTransferMatrix transmitance1 reflectance1 transmitance2 reflectance2
       bottomMat1 topMat1 bottomMat2 topMat2 =
     (case inv (matrix bottomMat1) of
        Inl e \<Rightarrow> Inl e
      | Inr bottomInv1 \<Rightarrow>
          let a12 = dot bottomInv1 [[transmitance1], [0]]
          in (case inv (matrix bottomMat2) of
               Inl e \<Rightarrow> Inl e
             | Inr bottomInv2 \<Rightarrow>
                 let a34 = dot bottomInv2 [[transmitance2], [0]];
                     b12 = dot (matrix topMat1) [[1], [reflectance1]];
                     b34 = dot (matrix topMat2) [[1], [reflectance2]];
                     rhs = [a12 ! 0 ! 0, a34 ! 0 ! 0, a12 ! 1 ! 0, a34 ! 1 ! 0];
                     bmat = [[b12 ! 0 ! 0, b12 ! 1 ! 0],
                             [b34 ! 0 ! 0, b34 ! 1 ! 0]];
                     lhs = vstack (hstack (bmat, zeros (2, 2)), hstack (zeros (2, 2), bmat))
                 in (case solve lhs rhs of
                       Inl e \<Rightarrow> Inl e
                     | Inr res \<Rightarrow>
                         let mat = [[res ! 0, res ! 2],
                                    [res ! 1, res ! 3]]
                         in Inr \<lparr>matrix = mat\<rparr>)))"

section \<open>Element types of the arrays\<close>

text \<open>
  The element type (\<^verbatim>\<open>dtype\<close>) of an array is fixed when it is created:
  \<^verbatim>\<open>numpy.complex64\<close> is a pair of 32-bit (single-precision) floats,
  \<^verbatim>\<open>numpy.complex128\<close> a pair of 64-bit (double-precision) floats, and
  \<^verbatim>\<open>numpy.float64\<close> (the default of \<^verbatim>\<open>numpy.identity\<close>) one 64-bit float.
  \<open>result_type\<close> is numpy's promotion on these three, which \<^verbatim>\<open>numpy.dot\<close> applies to
  its arguments. The functions \<open>*_dtype\<close> follow the construction operations and keep
  only the element type of each array.
\<close>

datatype dtype = float64 | complex64 | complex128

fun is_complex :: "dtype \<Rightarrow> bool" where
  "is_complex float64 = False"
| "is_complex complex64 = True"
| "is_complex complex128 = True"

fun component_bits :: "dtype \<Rightarrow> nat" where
  "component_bits float64 = 64"
| "component_bits complex64 = 32"
| "component_bits complex128 = 64"

fun result_type :: "dtype \<Rightarrow> dtype \<Rightarrow> dtype" where
  "result_type complex64 complex64 = complex64"
| "result_type float64 float64 = float64"
| "result_type _ _ = complex128"

definition structure_dtype :: "dtype list \<Rightarrow> dtype" where
  "structure_dtype args = foldl (\<lambda>mat m. result_type m mat) complex64 args"

definition layer_dtype :: dtype where
  "layer_dtype =
     (let bottomBoundary = complex64; topBoundary = complex64; propagation = complex64
      in structure_dtype [bottomBoundary, propagation, topBoundary])"

definition boundingLayer_dtype :: dtype where
  "boundingLayer_dtype = (let leftBoundary = complex64 in leftBoundary)"

definition propagationLayer_dtype :: dtype where
  "propagationLayer_dtype = (let propagation = complex64 in propagation)"

section \<open>Object identity: instances in a store\<close>

text \<open>
  A \<^verbatim>\<open>TransferMatrix\<close> is a mutable object: \<^verbatim>\<open>invert\<close>, \<^verbatim>\<open>appendLeft\<close> and
  \<^verbatim>\<open>appendRight\<close> assign to \<^verbatim>\<open>self.matrix\<close>. The store maps each reference to the
  array its \<^verbatim>\<open>matrix\<close> attribute holds; \<open>next_ref\<close> is the first reference not yet
  allocated.
\<close>

type_synonym ref = nat

record store =
  objs :: "ref \<Rightarrow> complex list list"
  next_ref :: ref

text \<open>\<^verbatim>\<open>TransferMatrix(matrix)\<close>: \<^verbatim>\<open>__init__\<close> on a new object.\<close>

definition new_TransferMatrix :: "complex list list \<Rightarrow> store \<Rightarrow> ref \<times> store" where
  "new_TransferMatrix m s =
     (next_ref s, s\<lparr>objs := (objs s)(next_ref s := m), next_ref := Suc (next_ref s)\<rparr>)"

definition invert :: "ref \<Rightarrow> store \<Rightarrow> error + store" where
  "invert self s =
     (case inv (objs s self) of
        Inl e \<Rightarrow> Inl e
      | Inr m \<Rightarrow> Inr (s\<lparr>objs := (objs s)(self := m)\<rparr>))"

definition appendLeft :: "ref \<Rightarrow> ref \<Rightarrow> store \<Rightarrow> store" where
  "appendLeft self m s = s\<lparr>objs := (objs s)(self := dot (objs s m) (objs s self))\<rparr>"

definition appendRight :: "ref \<Rightarrow> ref \<Rightarrow> store \<Rightarrow> store" where
  "appendRight self m s = s\<lparr>objs := (objs s)(self := dot (objs s self) (objs s m))\<rparr>"

definition structure_obj :: "ref list \<Rightarrow> store \<Rightarrow> ref \<times> store" where
  "structure_obj args s =
     new_TransferMatrix (foldl (\<lambda>mat m. dot (objs s m) mat) (identity 2) args) s"

text \<open>
  The default values of the parameters \<^verbatim>\<open>bottomMat\<close>, \<^verbatim>\<open>topMat\<close>, ... are evaluated
  once, when the three \<^verbatim>\<open>def\<close> statements are executed: eight objects, in the order
  of the source, at the references \<open>0\<close> to \<open>7\<close>. An argument left out is \<open>None\<close>.
\<close>

definition empty_store :: store where
  "empty_store = \<lparr>objs = (\<lambda>_. []), next_ref = 0\<rparr>"

definition module_store :: store where
  "module_store = fold (\<lambda>_ s. snd (new_TransferMatrix (identity 2) s)) [0..<8] empty_store"

definition arg_or :: "ref \<Rightarrow> ref option \<Rightarrow> ref" where
  "arg_or dflt arg = (case arg of None \<Rightarrow> dflt | Some r \<Rightarrow> r)"

definition findReciprocalTransferMatrix_obj ::
  "complex \<Rightarrow> complex \<Rightarrow> ref option \<Rightarrow> ref option \<Rightarrow> store \<Rightarrow> error + ref \<times> store" where
  "findReciprocalTransferMatrix_obj transmittance reflectance bottomMat topMat s =
     (let bottomMat = arg_or 0 bottomMat;
          topMat = arg_or 1 topMat
      in if \<not> transmittance \<noteq> 0 then Inl AssertionError
         else
           let matrix0 = [[1 / cnj transmittance, reflectance / transmittance],
                          [cnj (reflectance / transmittance), 1 / transmittance]]
           in (case inv (objs s bottomMat) of
                 Inl e \<Rightarrow> Inl e
               | Inr bottomInv \<Rightarrow>
                   let matrix1 = dot bottomInv matrix0
                   in (case inv (objs s topMat) of
                         Inl e \<Rightarrow> Inl e
                       | Inr topInv \<Rightarrow> Inr (new_TransferMatrix (dot matrix1 topInv) s))))"

definition findReciprocalTransferMatrixLegacy_obj ::
  "complex \<Rightarrow> complex \<Rightarrow> ref option \<Rightarrow> ref option \<Rightarrow> store \<Rightarrow> error + ref \<times> store" where
  "findReciprocalTransferMatrixLegacy_obj transmittance reflectance bottomMat topMat s =
     (let bottomMat = arg_or 2 bottomMat;
          topMat = arg_or 3 topMat;
          a = identity 2;
          b = [[Re reflectance, Im reflectance], [Im reflectance, - Re reflectance]];
          lhs = vstack (hstack (a, b), hstack (b, a));
          rhs = [Re transmittance, Im transmittance, 0, 0]
      in case solve lhs rhs of
           Inl e \<Rightarrow> Inl e
         | Inr res \<Rightarrow>
             let matrix0 =
                   [[of_real (res ! 0) + \<i> * of_real (res ! 1),
                     of_real (res ! 2) - \<i> * of_real (res ! 3)],
                    [of_real (res ! 2) + \<i> * of_real (res ! 3),
                     of_real (res ! 0) - \<i> * of_real (res ! 1)]]
             in (case inv (objs s bottomMat) of
                   Inl e \<Rightarrow> Inl e
                 | Inr bottomInv \<Rightarrow>
                     let matrix1 = dot bottomInv matrix0
                     in (case inv (objs s topMat) of
                           Inl e \<Rightarrow> Inl e
                         | Inr topInv \<Rightarrow> Inr (new_TransferMatrix (dot matrix1 topInv) s))))"

definition findGeneralizedTransferMatrix_obj ::
  "complex \<Rightarrow> complex \<Rightarrow> complex \<Rightarrow> complex \<Rightarrow>
   ref option \<Rightarrow> ref option \<Rightarrow> ref option \<Rightarrow> ref option \<Rightarrow> store \<Rightarrow> error + ref \<times> store" where
  "findGeneralizedTransferMatrix_obj transmitance1 reflectance1 transmitance2 reflectance2
       bottomMat1 topMat1 bottomMat2 topMat2 s =
     (let bottomMat1 = arg_or 4 bottomMat1;
          topMat1 = arg_or 5 topMat1;
          bottomMat2 = arg_or 6 bottomMat2;
          topMat2 = arg_or 7 topMat2
      in case inv (objs s bottomMat1) of
           Inl e \<Rightarrow> Inl e
         | Inr bottomInv1 \<Rightarrow>
             let a12 = dot bottomInv1 [[transmitance1], [0]]
             in (case inv (objs s bottomMat2) of
                   Inl e \<Rightarrow> Inl e
                 | Inr bottomInv2 \<Rightarrow>
                     let a34 = dot bottomInv2 [[transmitance2], [0]];
                         b12 = dot (objs s topMat1) [[1], [reflectance1]];
                         b34 = dot (objs s topMat2) [[1], [reflectance2]];
                         rhs = [a12 ! 0 ! 0, a34 ! 0 ! 0, a12 ! 1 ! 0, a34 ! 1 ! 0];
                         bmat = [[b12 ! 0 ! 0, b12 ! 1 ! 0],
                                 [b34 ! 0 ! 0, b34 ! 1 ! 0]];
                         lhs = vstack (hstack (bmat, zeros (2, 2)),
                                       hstack (zeros (2, 2), bmat))
                     in (case solve lhs rhs of
                           Inl e \<Rightarrow> Inl e
                         | Inr res \<Rightarrow>
                             let mat = [[res ! 0, res ! 2],
                                        [res ! 1, res ! 3]]
                             in Inr (new_TransferMatrix mat s))))"

text \<open>
  A caller that keeps calling the three solvers: an exception leaves the store as it
  was, a result is allocated in it.
\<close>

datatype call =
  Reciprocal complex complex "ref option" "ref option"
| ReciprocalLegacy complex complex "ref option" "ref option"
| Generalized complex complex complex complex "ref option" "ref option" "ref option" "ref option"

fun run_call :: "call \<Rightarrow> store \<Rightarrow> error + ref \<times> store" where
  "run_call (Reciprocal t r b p) s = findReciprocalTransferMatrix_obj t r b p s"
| "run_call (ReciprocalLegacy t r b p) s = findReciprocalTransferMatrixLegacy_obj t r b p s"
| "run_call (Generalized t1 r1 t2 r2 b1 p1 b2 p2) s =
     findGeneralizedTransferMatrix_obj t1 r1 t2 r2 b1 p1 b2 p2 s"

fun run_calls :: "call list \<Rightarrow> store \<Rightarrow> store" where
  "run_calls [] s = s"
| "run_calls (c # cs) s =
     (case run_call c s of Inl e \<Rightarrow> run_calls cs s | Inr (res, s') \<Rightarrow> run_calls cs s')"

section \<open>Matrix products as the specification writes them\<close>

text \<open>
  The product \<open>m\<^sub>1 \<cdot> (m\<^sub>2 \<cdot> (\<dots> \<cdot> (m\<^sub>k \<cdot> I)))\<close> of a list \<open>[m\<^sub>1, \<dots>, m\<^sub>k]\<close>; the specification's
  \<open>m\<^sub>k \<cdot> m\<^sub>k\<^sub>-\<^sub>1 \<cdot> \<dots> \<cdot> m\<^sub>1\<close> for arguments listed bottom to top is \<open>product\<close> of the
  reversed list.
\<close>

fun product :: "complex list list list \<Rightarrow> complex list list" where
  "product [] = identity 2"
| "product (m # ms) = dot m (product ms)"

section \<open>Evaluation of the numpy operations on 2x2 arrays\<close>

lemma det2: "det [[a, b], [c, d]] = a * d - b * c"
  by (simp add: del_col_def)

lemma identity2: "identity 2 = [[1, 0], [0, 1]]"
  by (simp add: identity_def numeral_2_eq_2)

lemma dot2: "dot [[a, b], [c, d]] [[e, f], [g, h]] =
    [[a * e + b * g, a * f + b * h], [c * e + d * g, c * f + d * h]]"
  by (simp add: dot_def)

lemma dot2_col: "dot [[a, b], [c, d]] [[e], [g]] = [[a * e + b * g], [c * e + d * g]]"
  by (simp add: dot_def)

lemma inv2: "inv [[a, b], [c, d]] =
    (if a * d - b * c = 0 then Inl LinAlgError
     else Inr [[d / (a * d - b * c), - b / (a * d - b * c)],
               [- c / (a * d - b * c), a / (a * d - b * c)]])"
  by (simp add: inv_def del_col_def del_row_def)

lemma solve2: "solve [[a, b], [c, d]] [e, f] =
    (if a * d - b * c = 0 then Inl LinAlgError
     else Inr [(e * d - b * f) / (a * d - b * c), (a * f - e * c) / (a * d - b * c)])"
  by (simp add: solve_def del_col_def)

text \<open>
  On 2x2 systems \<open>solve\<close> returns \<open>[x, y]\<close> exactly when the matrix is nonsingular and
  \<open>[x, y]\<close> solves the system: the contract of \<^verbatim>\<open>numpy.linalg.solve\<close> in exact
  arithmetic.
\<close>

lemma solve2_contract:
  "solve [[a, b], [c, d]] [e, f] = Inr [x, y] \<longleftrightarrow>
     a * d - b * c \<noteq> 0 \<and> a * x + b * y = e \<and> c * x + d * y = (f :: 'a :: field)"
proof (cases "a * d - b * c = 0")
  case True
  then show ?thesis by (simp add: solve2)
next
  case False
  define D where "D = a * d - b * c"
  have nz: "D \<noteq> 0" using False by (simp add: D_def)
  have s: "solve [[a, b], [c, d]] [e, f] = Inr [(e * d - b * f) / D, (a * f - e * c) / D]"
    using False by (simp add: solve2 D_def)
  show ?thesis
  proof
    assume "solve [[a, b], [c, d]] [e, f] = Inr [x, y]"
    with s have x: "x = (e * d - b * f) / D" and y: "y = (a * f - e * c) / D" by simp_all
    have "a * x + b * y = (e * D) / D"
      unfolding x y D_def by (simp add: algebra_simps add_divide_distrib diff_divide_distrib)
    moreover have "c * x + d * y = (f * D) / D"
      unfolding x y D_def by (simp add: algebra_simps add_divide_distrib diff_divide_distrib)
    ultimately show "a * d - b * c \<noteq> 0 \<and> a * x + b * y = e \<and> c * x + d * y = f"
      using nz False by simp
  next
    assume "a * d - b * c \<noteq> 0 \<and> a * x + b * y = e \<and> c * x + d * y = f"
    then have e: "e = a * x + b * y" and f: "f = c * x + d * y" by simp_all
    have "e * d - b * f = x * D" unfolding e f D_def by (simp add: algebra_simps)
    then have x: "(e * d - b * f) / D = x" using nz by simp
    have "a * f - e * c = y * D" unfolding e f D_def by (simp add: algebra_simps)
    then have y: "(a * f - e * c) / D = y" using nz by simp
    show "solve [[a, b], [c, d]] [e, f] = Inr [x, y]" unfolding s x y ..
  qed
qed

lemma solvePropagation2: "solvePropagation \<lparr>matrix = [[T00, T01], [T10, T11]]\<rparr> f =
   (if T11 = 0 then Inl LinAlgError else Inr (- (T10 * f) / T11, (T00 * f * T11 - T01 * (T10 * f)) / T11))"
  by (simp add: solvePropagation_def solve2 Let_def)

lemma layer1: "wavelength \<noteq> 0 \<Longrightarrow> layer 1 d wavelength =
   Inr \<lparr>matrix = [[exp (- \<i> * of_real d * 2 * of_real pi / of_real wavelength), 0],
                   [0, exp (\<i> * of_real d * 2 * of_real pi / of_real wavelength)]]\<rparr>"
  by (simp add: layer_def structure_def identity2 dot2 Let_def)

lemma inv2_unique:
  assumes "dot [[a, b], [c, d]] [[e, f], [g, h]] = identity 2"
  shows "inv [[a, b], [c, d]] = Inr [[e, f], [g, h :: 'a :: field]]"
proof -
  from assms have e1: "a * e + b * g = 1" and e2: "a * f + b * h = 0"
    and e3: "c * e + d * g = 0" and e4: "c * f + d * h = 1"
    by (simp_all add: dot_def identity_def numeral_2_eq_2)
  have D: "(a * d - b * c) * (e * h - f * g) = 1"
  proof -
    have "(a * d - b * c) * (e * h - f * g) = (a * e + b * g) * (c * f + d * h) - (a * f + b * h) * (c * e + d * g)"
      by (simp add: algebra_simps)
    then show ?thesis by (simp add: e1 e2 e3 e4)
  qed
  then have nz: "a * d - b * c \<noteq> 0" by auto
  have "d = e * (a * d - b * c)"
  proof -
    have "e * (a * d - b * c) = d * (a * e + b * g) - b * (c * e + d * g)" by (simp add: algebra_simps)
    then show ?thesis by (simp add: e1 e3)
  qed
  moreover have "- b = f * (a * d - b * c)"
  proof -
    have "f * (a * d - b * c) = d * (a * f + b * h) - b * (c * f + d * h)" by (simp add: algebra_simps)
    then show ?thesis by (simp add: e2 e4)
  qed
  moreover have "- c = g * (a * d - b * c)"
  proof -
    have "g * (a * d - b * c) = a * (c * e + d * g) - c * (a * e + b * g)" by (simp add: algebra_simps)
    then show ?thesis by (simp add: e1 e3)
  qed
  moreover have "a = h * (a * d - b * c)"
  proof -
    have "h * (a * d - b * c) = a * (c * f + d * h) - c * (a * f + b * h)" by (simp add: algebra_simps)
    then show ?thesis by (simp add: e2 e4)
  qed
  ultimately have "d / (a * d - b * c) = e" "- b / (a * d - b * c) = f"
    "- c / (a * d - b * c) = g" "a / (a * d - b * c) = h"
    using nz by (simp_all add: field_simps)
  then show ?thesis using nz by (simp add: inv2)
qed

text \<open>
  Claim C3. For every reflectance and every pair of bounding matrices,
  \<open>findReciprocalTransferMatrix\<close> with transmittance \<open>0\<close> fails with the error of the
  \<^verbatim>\<open>assert\<close> statement (the specification's InvalidArgumentError): the check comes first,
  before any division and before the bounding matrices are inverted.
\<close>

theorem findReciprocalTransferMatrix_zero_transmittance:
  "findReciprocalTransferMatrix 0 reflectance bottomMat topMat = Inl AssertionError"
  by (simp add: findReciprocalTransferMatrix_def)



text \<open>
  The forward solver in exact arithmetic. \<open>solvePropagation\<close> fails exactly when
  \<open>lhs = [[T01, -1], [T11, 0]]\<close> is singular (its kernel holds a nonzero vector, which
  is the same as its determinant being zero); it returns \<open>(r, t)\<close> exactly when \<open>lhs\<close> is
  nonsingular and \<open>lhs \<cdot> (r, t) = f \<cdot> (-T00, -T10)\<close>, so the pair returned is the unique
  solution. On floating-point numbers the error path is a property of the computed
  pivots and is not described here.
\<close>

lemma solvePropagation_exact:
  "(solvePropagation \<lparr>matrix = [[T00, T01], [T10, T11]]\<rparr> f = Inl LinAlgError
      \<longleftrightarrow> (\<exists>x y. (x \<noteq> 0 \<or> y \<noteq> 0) \<and> T01 * x + (- 1) * y = 0 \<and> T11 * x + 0 * y = 0))
   \<and> (\<forall>r t. solvePropagation \<lparr>matrix = [[T00, T01], [T10, T11]]\<rparr> f = Inr (r, t)
      \<longleftrightarrow> det [[T01, - 1], [T11, 0]] \<noteq> 0
          \<and> T01 * r + (- 1) * t = f * (- T00) \<and> T11 * r + 0 * t = f * (- T10))
   \<and> (det [[T01, - 1], [T11, 0]] = 0 \<longleftrightarrow>
         (\<exists>x y. (x \<noteq> 0 \<or> y \<noteq> 0) \<and> T01 * x + (- 1) * y = 0 \<and> T11 * x + 0 * y = 0))
   \<and> (det [[T01, - 1], [T11, 0]] \<noteq> 0 \<longrightarrow>
         (\<exists>r t. solvePropagation \<lparr>matrix = [[T00, T01], [T10, T11]]\<rparr> f = Inr (r, t)))"
proof -
  have sing: "(\<exists>x y. (x \<noteq> 0 \<or> y \<noteq> 0) \<and> T01 * x + (- 1) * y = 0 \<and> T11 * x + 0 * y = 0) \<longleftrightarrow> T11 = 0"
  proof
    assume "\<exists>x y. (x \<noteq> 0 \<or> y \<noteq> 0) \<and> T01 * x + (- 1) * y = 0 \<and> T11 * x + 0 * y = 0"
    then obtain x y where xy: "x \<noteq> 0 \<or> y \<noteq> 0" "T01 * x + (- 1) * y = 0" "T11 * x + 0 * y = 0"
      by blast
    show "T11 = 0"
    proof (rule ccontr)
      assume "T11 \<noteq> 0"
      with xy(3) have "x = 0" by simp
      with xy(2) have "y = 0" by simp
      with \<open>x = 0\<close> xy(1) show False by simp
    qed
  next
    assume "T11 = 0"
    then have "((1::complex) \<noteq> 0 \<or> T01 \<noteq> 0) \<and> T01 * 1 + (- 1) * T01 = 0 \<and> T11 * 1 + 0 * T01 = 0"
      by simp
    then show "\<exists>x y. (x \<noteq> 0 \<or> y \<noteq> 0) \<and> T01 * x + (- 1) * y = 0 \<and> T11 * x + 0 * y = 0"
      by blast
  qed
  have d: "det [[T01, - 1], [T11, 0]] = T11" by (simp add: del_col_def)
  have sol: "\<And>r t. solvePropagation \<lparr>matrix = [[T00, T01], [T10, T11]]\<rparr> f = Inr (r, t)
      \<longleftrightarrow> T11 \<noteq> 0 \<and> T01 * r + (- 1) * t = f * (- T00) \<and> T11 * r + 0 * t = f * (- T10)"
  proof (cases "T11 = 0")
    case True
    then show "?thesis r t" for r t by (simp add: solvePropagation2)
  next
    case False
    fix r t
    have A: "T11 * r + 0 * t = f * (- T10) \<longleftrightarrow> r = - (T10 * f) / T11"
      using False by (auto simp: field_simps)
    have B: "T01 * (- (T10 * f) / T11) + (- 1) * t = f * (- T00)
               \<longleftrightarrow> t = (T00 * f * T11 - T01 * (T10 * f)) / T11"
      using False by (auto simp: field_simps)
    show "?thesis r t"
      using False A B by (auto simp add: solvePropagation2)
  qed
  have err: "solvePropagation \<lparr>matrix = [[T00, T01], [T10, T11]]\<rparr> f = Inl LinAlgError \<longleftrightarrow> T11 = 0"
    by (simp add: solvePropagation2)
  have ex: "T11 \<noteq> 0 \<Longrightarrow> \<exists>r t. solvePropagation \<lparr>matrix = [[T00, T01], [T10, T11]]\<rparr> f = Inr (r, t)"
    by (simp add: solvePropagation2)
  show ?thesis
    unfolding sing d using sol err ex by blast
qed


lemma exp_minus_i_pi: "exp (- (\<i> * complex_of_real pi)) = - 1"
  by (simp add: exp_minus)

text \<open>
  Claim C1 as stated fails: for \<open>d = 1\<close> and \<open>\<lambda> = 2\<close> (half a wavelength of air) the
  transfer matrix is \<open>-I\<close> and the transmittance is \<open>-1\<close>, at distance \<open>2\<close> from \<open>1\<close>.
\<close>

theorem layer_air_transmittance_not_one:
  "layer 1 1 2 = Inr \<lparr>matrix = [[- 1, 0], [0, - 1]]\<rparr>
   \<and> solvePropagation \<lparr>matrix = [[- 1, 0], [0, - 1]]\<rparr> 1 = Inr (0, - 1)
   \<and> cmod (- 1 - 1) = 2"
  by (simp add: layer1 solvePropagation2 exp_minus_i_pi)

text \<open>
  Claim C1, amended. For every thickness \<open>d \<ge> 0\<close> and wavelength \<open>\<lambda> > 0\<close>,
  \<open>layer 1 d \<lambda>\<close> returns a matrix on which \<open>solvePropagation\<close> with incident field \<open>1\<close>
  returns reflectance \<open>0\<close> and the transmittance \<open>exp (-2\<pi>\<i> d / \<lambda>)\<close>: a complex amplitude
  of modulus \<open>1\<close> that carries the propagation phase.
\<close>

theorem layer_air_solvePropagation:
  assumes "0 \<le> d" and "0 < wavelength"
  shows "\<exists>T t. layer 1 d wavelength = Inr T \<and> solvePropagation T 1 = Inr (0, t)
           \<and> t = exp (- \<i> * of_real (2 * pi * d / wavelength)) \<and> cmod t = 1"
proof -
  let ?z = "\<i> * of_real d * 2 * of_real pi / of_real wavelength"
  have nz: "exp ?z \<noteq> 0" by simp
  have "solvePropagation \<lparr>matrix = [[exp (- ?z), 0], [0, exp ?z]]\<rparr> 1 = Inr (0, exp (- ?z))"
    using nz by (simp add: solvePropagation2 del: exp_not_eq_zero)
  moreover have "layer 1 d wavelength = Inr \<lparr>matrix = [[exp (- ?z), 0], [0, exp ?z]]\<rparr>"
    using assms by (simp add: layer1)
  moreover have "- ?z = - \<i> * of_real (2 * pi * d / wavelength)" by simp
  moreover have "cmod (exp (- ?z)) = 1" by (simp add: norm_exp_eq_Re)
  ultimately show ?thesis by (metis (no_types))
qed

text \<open>The theorem of claim C1 at \<open>d = 1\<close>, \<open>\<lambda> = 2\<close>.\<close>

theorem layer_air_solvePropagation_witness:
  "(0 :: real) \<le> 1 \<and> (0 :: real) < 2
   \<and> (\<exists>T t. layer 1 1 2 = Inr T \<and> solvePropagation T 1 = Inr (0, t)
           \<and> t = exp (- \<i> * of_real (2 * pi * 1 / 2)) \<and> cmod t = 1)"
proof -
  have h1: "(0 :: real) \<le> 1" and h2: "(0 :: real) < 2" by simp_all
  show ?thesis using h1 h2 layer_air_solvePropagation[OF h1 h2] by blast
qed

section \<open>Composition, element types and the store\<close>

lemma foldl_dot_product:
  "foldl (\<lambda>mat m. dot (f m) mat) (identity 2) args = product (rev (map f args))"
  by (induction args rule: rev_induct) simp_all

text \<open>
  Claim C7. For arguments \<open>m\<^sub>1, \<dots>, m\<^sub>k\<close> listed bottom to top, \<open>structure\<close> returns
  \<open>m\<^sub>k \<cdot> (m\<^sub>k\<^sub>-\<^sub>1 \<cdot> (\<dots> \<cdot> (m\<^sub>1 \<cdot> I)))\<close>, the left fold from the identity with
  \<open>mat := m.matrix \<cdot> mat\<close>; with no argument it returns the 2x2 identity, with two it
  returns \<open>b \<cdot> (a \<cdot> I)\<close>. On objects in a store, the call allocates one new object for
  the result and changes nothing else: every object that existed before the call, so
  every argument, holds the matrix it held before.
\<close>

theorem structure_product:
  "matrix (structure args) = product (rev (map matrix args))
   \<and> matrix (structure []) = [[1, 0], [0, 1]]
   \<and> matrix (structure [a, b]) = dot (matrix b) (dot (matrix a) [[1, 0], [0, 1]])
   \<and> structure_obj refs s =
       (next_ref s,
        s\<lparr>objs := (objs s)(next_ref s := product (rev (map (objs s) refs))),
          next_ref := Suc (next_ref s)\<rparr>)
   \<and> (\<forall>r. r < next_ref s \<longrightarrow> objs (snd (structure_obj refs s)) r = objs s r)"
proof -
  have p1: "matrix (structure args) = product (rev (map matrix args))"
    by (simp add: structure_def foldl_dot_product)
  have p2: "matrix (structure []) = [[1, 0], [0, 1]]"
    by (simp add: structure_def identity2)
  have p3: "matrix (structure [a, b]) = dot (matrix b) (dot (matrix a) [[1, 0], [0, 1]])"
    by (simp add: structure_def identity2)
  have p4: "structure_obj refs s =
       (next_ref s,
        s\<lparr>objs := (objs s)(next_ref s := product (rev (map (objs s) refs))),
          next_ref := Suc (next_ref s)\<rparr>)"
    by (simp add: structure_obj_def new_TransferMatrix_def foldl_dot_product)
  have p5: "\<forall>r. r < next_ref s \<longrightarrow> objs (snd (structure_obj refs s)) r = objs s r"
    by (simp add: p4)
  show ?thesis using p1 p2 p3 p4 p5 by (intro conjI)
qed

text \<open>
  The theorem of claim C7 on a store of two objects, \<open>[[1, 2], [3, 4]]\<close> at reference
  \<open>0\<close> and the row swap \<open>[[0, 1], [1, 0]]\<close> at reference \<open>1\<close>.
\<close>

theorem structure_product_witness:
  "(0 :: nat) < next_ref (snd (new_TransferMatrix [[0, 1], [1, 0]]
                          (snd (new_TransferMatrix [[1, 2], [3, 4]] empty_store))))
   \<and> objs (snd (structure_obj [0, 1]
               (snd (new_TransferMatrix [[0, 1], [1, 0]]
                  (snd (new_TransferMatrix [[1, 2], [3, 4]] empty_store)))))) 0 = [[1, 2], [3, 4]]
   \<and> objs (snd (structure_obj [0, 1]
               (snd (new_TransferMatrix [[0, 1], [1, 0]]
                  (snd (new_TransferMatrix [[1, 2], [3, 4]] empty_store)))))) 2 = [[3, 4], [1, 2]]"
proof -
  let ?s = "snd (new_TransferMatrix [[0, 1], [1, 0]]
                (snd (new_TransferMatrix [[1, 2], [3, 4]] empty_store)))"
  have h: "(0 :: nat) < next_ref ?s"
    by (simp add: new_TransferMatrix_def empty_store_def)
  have o0: "objs ?s 0 = [[1, 2], [3, 4]]" and o1: "objs ?s (Suc 0) = [[0, 1], [1, 0]]"
    and n: "next_ref ?s = 2"
    by (simp_all add: new_TransferMatrix_def empty_store_def)
  from structure_product[of "[]" "\<lparr>matrix = []\<rparr>" "\<lparr>matrix = []\<rparr>" "[0, 1]" ?s] h
  have a: "objs (snd (structure_obj [0, 1] ?s)) 0 = objs ?s 0" by blast
  from structure_product[of "[]" "\<lparr>matrix = []\<rparr>" "\<lparr>matrix = []\<rparr>" "[0, 1]" ?s]
  have b: "structure_obj [0, 1] ?s =
       (next_ref ?s, ?s\<lparr>objs := (objs ?s)(next_ref ?s := product (rev (map (objs ?s) [0, 1]))),
          next_ref := Suc (next_ref ?s)\<rparr>)" by blast
  have c: "objs (snd (structure_obj [0, 1] ?s)) 2 = [[3, 4], [1, 2]]"
    unfolding b by (simp add: n o0 o1 dot2 identity2)
  show ?thesis using h a c o0 by simp
qed

text \<open>
  Claim C9 as stated fails: the array that \<open>layer\<close> returns has element type
  \<^verbatim>\<open>complex64\<close>, whose real and imaginary parts are 32-bit (single-precision) floats.
\<close>

theorem layer_dtype_single_precision:
  "layer_dtype = complex64 \<and> component_bits layer_dtype = 32 \<and> layer_dtype \<noteq> complex128"
  by (simp add: layer_dtype_def structure_dtype_def)

lemma foldl_result_type_complex128: "foldl (\<lambda>mat m. result_type m mat) complex128 args = complex128"
proof (induction args)
  case Nil
  show ?case by simp
next
  case (Cons a args)
  have "result_type a complex128 = complex128" by (cases a) simp_all
  with Cons show ?case by simp
qed

lemma structure_dtype_cases:
  "structure_dtype args = (if list_all (\<lambda>a. a = complex64) args then complex64 else complex128)"
  unfolding structure_dtype_def
proof (induction args)
  case Nil
  show ?case by simp
next
  case (Cons a args)
  show ?case
  proof (cases a)
    case complex64
    with Cons show ?thesis by simp
  next
    case float64
    then show ?thesis by (simp add: foldl_result_type_complex128)
  next
    case complex128
    then show ?thesis by (simp add: foldl_result_type_complex128)
  qed
qed

text \<open>
  Claim C9, amended. \<open>layer\<close>, \<open>boundingLayer\<close>, \<open>propagationLayer\<close> and \<open>structure\<close>
  without arguments produce arrays of element type \<^verbatim>\<open>complex64\<close>, complex numbers
  with single-precision (32-bit) parts. \<open>structure\<close> always produces a complex array; it
  is \<^verbatim>\<open>complex64\<close> when every argument is, and \<^verbatim>\<open>complex128\<close> (double-precision
  parts) as soon as one argument is \<^verbatim>\<open>float64\<close> or \<^verbatim>\<open>complex128\<close>.
\<close>

theorem construction_dtypes:
  "layer_dtype = complex64 \<and> boundingLayer_dtype = complex64
   \<and> propagationLayer_dtype = complex64 \<and> structure_dtype [] = complex64
   \<and> structure_dtype args = (if list_all (\<lambda>a. a = complex64) args then complex64 else complex128)
   \<and> is_complex (structure_dtype args)
   \<and> component_bits complex64 = 32 \<and> component_bits complex128 = 64"
  by (simp add: layer_dtype_def boundingLayer_dtype_def propagationLayer_dtype_def
      structure_dtype_cases)

text \<open>
  On a store, each function computes what it computes on values, from the matrices its
  arguments hold, and allocates the result.
\<close>

lemma findReciprocalTransferMatrix_obj_value:
  "findReciprocalTransferMatrix_obj t r b p s =
     map_sum id (\<lambda>T. new_TransferMatrix (matrix T) s)
       (findReciprocalTransferMatrix t r \<lparr>matrix = objs s (arg_or 0 b)\<rparr>
          \<lparr>matrix = objs s (arg_or 1 p)\<rparr>)"
  unfolding findReciprocalTransferMatrix_obj_def findReciprocalTransferMatrix_def Let_def
  by (simp split: sum.splits)

lemma findReciprocalTransferMatrixLegacy_obj_value:
  "findReciprocalTransferMatrixLegacy_obj t r b p s =
     map_sum id (\<lambda>T. new_TransferMatrix (matrix T) s)
       (findReciprocalTransferMatrixLegacy t r \<lparr>matrix = objs s (arg_or 2 b)\<rparr>
          \<lparr>matrix = objs s (arg_or 3 p)\<rparr>)"
  unfolding findReciprocalTransferMatrixLegacy_obj_def findReciprocalTransferMatrixLegacy_def Let_def
  by (simp split: sum.splits)

lemma findGeneralizedTransferMatrix_obj_value:
  "findGeneralizedTransferMatrix_obj t1 r1 t2 r2 b1 p1 b2 p2 s =
     map_sum id (\<lambda>T. new_TransferMatrix (matrix T) s)
       (findGeneralizedTransferMatrix t1 r1 t2 r2
          \<lparr>matrix = objs s (arg_or 4 b1)\<rparr> \<lparr>matrix = objs s (arg_or 5 p1)\<rparr>
          \<lparr>matrix = objs s (arg_or 6 b2)\<rparr> \<lparr>matrix = objs s (arg_or 7 p2)\<rparr>)"
  unfolding findGeneralizedTransferMatrix_obj_def findGeneralizedTransferMatrix_def Let_def
  by (simp split: sum.splits)

lemma structure_obj_value:
  "structure_obj refs s =
     new_TransferMatrix (matrix (structure (map (\<lambda>r. \<lparr>matrix = objs s r\<rparr>) refs))) s"
  by (simp add: structure_obj_def structure_def foldl_map)

lemma new_TransferMatrix_frame:
  "new_TransferMatrix m s = (res, s') \<Longrightarrow>
     res = next_ref s \<and> next_ref s' = Suc (next_ref s) \<and> objs s' res = m
     \<and> (\<forall>a. a \<noteq> res \<longrightarrow> objs s' a = objs s a)"
  by (auto simp: new_TransferMatrix_def)

lemma findReciprocalTransferMatrix_obj_alloc:
  "findReciprocalTransferMatrix_obj t r b p s = Inr (res, s') \<Longrightarrow>
     \<exists>m. new_TransferMatrix m s = (res, s')"
  by (auto simp: findReciprocalTransferMatrix_obj_def Let_def split: if_splits sum.splits)

lemma findReciprocalTransferMatrixLegacy_obj_alloc:
  "findReciprocalTransferMatrixLegacy_obj t r b p s = Inr (res, s') \<Longrightarrow>
     \<exists>m. new_TransferMatrix m s = (res, s')"
  by (auto simp: findReciprocalTransferMatrixLegacy_obj_def Let_def split: if_splits sum.splits)

lemma findGeneralizedTransferMatrix_obj_alloc:
  "findGeneralizedTransferMatrix_obj t1 r1 t2 r2 b1 p1 b2 p2 s = Inr (res, s') \<Longrightarrow>
     \<exists>m. new_TransferMatrix m s = (res, s')"
  by (auto simp: findGeneralizedTransferMatrix_obj_def Let_def split: if_splits sum.splits)

lemma run_call_alloc:
  "run_call c s = Inr (res, s') \<Longrightarrow> \<exists>m. new_TransferMatrix m s = (res, s')"
  by (cases c)
     (auto dest: findReciprocalTransferMatrix_obj_alloc findReciprocalTransferMatrixLegacy_obj_alloc
        findGeneralizedTransferMatrix_obj_alloc)

lemma module_store_eq:
  "next_ref module_store = 8 \<and> (\<forall>d < 8. objs module_store d = identity 2)"
  by (simp add: module_store_def empty_store_def new_TransferMatrix_def upt_rec)

lemma run_calls_keeps_allocated:
  "a < next_ref s \<Longrightarrow> objs (run_calls cs s) a = objs s a \<and> next_ref s \<le> next_ref (run_calls cs s)"
proof (induction cs arbitrary: s)
  case Nil
  show ?case by simp
next
  case (Cons c cs)
  show ?case
  proof (cases "run_call c s")
    case (Inl e)
    with Cons show ?thesis by simp
  next
    case (Inr x)
    obtain res s' where x: "x = (res, s')" by (cases x)
    with Inr obtain m where "new_TransferMatrix m s = (res, s')"
      using run_call_alloc by blast
    then have f: "next_ref s' = Suc (next_ref s)" "objs s' a = objs s a"
      using Cons.prems new_TransferMatrix_frame by fastforce+
    then have "a < next_ref s'" using Cons.prems by simp
    from Cons.IH[OF this] f Inr x show ?thesis by simp
  qed
qed

text \<open>
  Claim C10. A call of \<open>findReciprocalTransferMatrix\<close>,
  \<open>findReciprocalTransferMatrixLegacy\<close> or \<open>findGeneralizedTransferMatrix\<close> that returns
  allocates its result at a new reference and leaves every other object of the store,
  so every \<^verbatim>\<open>bottomMat\<close> and \<^verbatim>\<open>topMat\<close> argument and every default instance,
  with the matrix it held (a call that raises returns no store: nothing was written).
  After any sequence of calls, with or without explicit bounding matrices, the eight
  default instances created at definition time still hold the identity.
\<close>

theorem solvers_keep_store:
  "(findReciprocalTransferMatrix_obj t r b p s = Inr (res, s') \<longrightarrow>
      res = next_ref s \<and> (\<forall>a. a \<noteq> res \<longrightarrow> objs s' a = objs s a))
   \<and> (findReciprocalTransferMatrixLegacy_obj t r b p s = Inr (res, s') \<longrightarrow>
      res = next_ref s \<and> (\<forall>a. a \<noteq> res \<longrightarrow> objs s' a = objs s a))
   \<and> (findGeneralizedTransferMatrix_obj t1 r1 t2 r2 b1 p1 b2 p2 s = Inr (res, s') \<longrightarrow>
      res = next_ref s \<and> (\<forall>a. a \<noteq> res \<longrightarrow> objs s' a = objs s a))
   \<and> (\<forall>d < 8. objs (run_calls calls module_store) d = identity 2)"
proof -
  have g: "\<And>m. new_TransferMatrix m s = (res, s') \<Longrightarrow>
      res = next_ref s \<and> (\<forall>a. a \<noteq> res \<longrightarrow> objs s' a = objs s a)"
    using new_TransferMatrix_frame by blast
  have p1: "findReciprocalTransferMatrix_obj t r b p s = Inr (res, s') \<longrightarrow>
      res = next_ref s \<and> (\<forall>a. a \<noteq> res \<longrightarrow> objs s' a = objs s a)"
    using findReciprocalTransferMatrix_obj_alloc g by blast
  have p2: "findReciprocalTransferMatrixLegacy_obj t r b p s = Inr (res, s') \<longrightarrow>
      res = next_ref s \<and> (\<forall>a. a \<noteq> res \<longrightarrow> objs s' a = objs s a)"
    using findReciprocalTransferMatrixLegacy_obj_alloc g by blast
  have p3: "findGeneralizedTransferMatrix_obj t1 r1 t2 r2 b1 p1 b2 p2 s = Inr (res, s') \<longrightarrow>
      res = next_ref s \<and> (\<forall>a. a \<noteq> res \<longrightarrow> objs s' a = objs s a)"
    using findGeneralizedTransferMatrix_obj_alloc g by blast
  have p4: "\<forall>d < 8. objs (run_calls calls module_store) d = identity 2"
    using run_calls_keeps_allocated[of _ module_store calls] module_store_eq by simp
  show ?thesis using p1 p2 p3 p4 by (intro conjI)
qed


section \<open>The 4x4 systems of the inverse solvers\<close>

lemma hstack2: "hstack ([[a, b], [c, d]], [[e, f], [g, h]]) = [[a, b, e, f], [c, d, g, h]]"
  by (simp add: hstack_def)

lemma zeros22: "zeros (2, 2) = [[0, 0], [0, 0]]"
  by (simp add: zeros_def numeral_2_eq_2)

lemma det4_block:
  "det [[a, b, 0, 0], [c, d, 0, 0], [0, 0, a, b], [0, 0, c, d]] = (a * d - b * c) * (a * d - b * c)"
  by (simp add: del_col_def algebra_simps)

lemma solve4_block:
  "solve [[a, b, 0, 0], [c, d, 0, 0], [0, 0, a, b], [0, 0, c, d]] [e, f, g, h] =
     (if a * d - b * c = 0 then Inl LinAlgError
      else Inr [(e * d - b * f) / (a * d - b * c), (a * f - e * c) / (a * d - b * c),
                (g * d - b * h) / (a * d - b * c), (a * h - g * c) / (a * d - b * c)])"
proof (cases "a * d - b * c = 0")
  case True
  then show ?thesis by (simp add: solve_def det4_block del: det.simps)
next
  case False
  have n0: "det [[e, b, 0, 0], [f, d, 0, 0], [g, 0, a, b], [h, 0, c, d]] = (e * d - b * f) * (a * d - b * c)"
    by (simp add: del_col_def algebra_simps)
  have n1: "det [[a, e, 0, 0], [c, f, 0, 0], [0, g, a, b], [0, h, c, d]] = (a * f - e * c) * (a * d - b * c)"
    by (simp add: del_col_def algebra_simps)
  have n2: "det [[a, b, e, 0], [c, d, f, 0], [0, 0, g, b], [0, 0, h, d]] = (g * d - b * h) * (a * d - b * c)"
    by (simp add: del_col_def algebra_simps)
  have n3: "det [[a, b, 0, e], [c, d, 0, f], [0, 0, a, g], [0, 0, c, h]] = (a * h - g * c) * (a * d - b * c)"
    by (simp add: del_col_def algebra_simps)
  have l: "[0..<length [[a, b, 0, 0], [c, d, 0, 0], [0, 0, a, b], [0, 0, c, d]]] = [0, 1, 2, 3]"
    by (simp add: upt_rec)
  show ?thesis using False
    unfolding solve_def det4_block l
    by (simp add: n0 n1 n2 n3 eval_nat_numeral del: det.simps)
qed


lemma det4_legacy:
  "det [[1, 0, a, b], [0, 1, b, - a], [a, b, 1, 0], [b, - a, 0, 1]] =
     (1 - a * a - b * b) * (1 - a * a - b * b)"
  by (simp add: del_col_def algebra_simps)

lemma solve4_legacy:
  "solve [[1, 0, a, b], [0, 1, b, - a], [a, b, 1, 0], [b, - a, 0, 1]] [p, q, 0, 0] =
     (if 1 - a * a - b * b = 0 then Inl LinAlgError
      else Inr [p / (1 - a * a - b * b), q / (1 - a * a - b * b),
                - (a * p + b * q) / (1 - a * a - b * b),
                - (b * p - a * q) / (1 - a * a - b * b)])"
proof (cases "1 - a * a - b * b = 0")
  case True
  then show ?thesis by (simp add: solve_def det4_legacy del: det.simps)
next
  case False
  have n0: "det [[p, 0, a, b], [q, 1, b, - a], [0, b, 1, 0], [0, - a, 0, 1]] =
      p * (1 - a * a - b * b)"
    by (simp add: del_col_def algebra_simps)
  have n1: "det [[1, p, a, b], [0, q, b, - a], [a, 0, 1, 0], [b, 0, 0, 1]] =
      q * (1 - a * a - b * b)"
    by (simp add: del_col_def algebra_simps)
  have n2: "det [[1, 0, p, b], [0, 1, q, - a], [a, b, 0, 0], [b, - a, 0, 1]] =
      - (a * p + b * q) * (1 - a * a - b * b)"
    by (simp add: del_col_def algebra_simps)
  have n3: "det [[1, 0, a, p], [0, 1, b, q], [a, b, 1, 0], [b, - a, 0, 0]] =
      - (b * p - a * q) * (1 - a * a - b * b)"
    by (simp add: del_col_def algebra_simps)
  have l: "[0..<length [[1, 0, a, b], [0, 1, b, - a], [a, b, 1, 0], [b, - a, 0, 1]]] = [0, 1, 2, 3]"
    by (simp add: upt_rec)
  show ?thesis using False
    unfolding solve_def det4_legacy l
    by (simp add: n0 n1 n2 n3 eval_nat_numeral del: det.simps)
qed


text \<open>The solution returned for the legacy system satisfies its four equations.\<close>

lemma solve4_legacy_sound:
  fixes a :: real
  assumes "solve [[1, 0, a, b], [0, 1, b, - a], [a, b, 1, 0], [b, - a, 0, 1]] [p, q, 0, 0]
             = Inr [x0, x1, x2, x3]"
  shows "x0 + a * x2 + b * x3 = p \<and> x1 + b * x2 - a * x3 = q
         \<and> a * x0 + b * x1 + x2 = 0 \<and> b * x0 - a * x1 + x3 = 0"
proof -
  define D where "D = 1 - a * a - b * b"
  have nz: "D \<noteq> 0"
  proof
    assume "D = 0"
    with assms show False by (simp add: solve4_legacy D_def)
  qed
  with assms have x: "x0 = p / D" "x1 = q / D" "x2 = - (a * p + b * q) / D"
    "x3 = - (b * p - a * q) / D"
    by (simp_all add: solve4_legacy D_def)
  from x nz have xD: "x0 * D = p" "x1 * D = q" "x2 * D = - (a * p + b * q)"
    "x3 * D = - (b * p - a * q)"
    by simp_all
  have "(x0 + a * x2 + b * x3) * D = x0 * D + a * (x2 * D) + b * (x3 * D)"
    by (simp add: algebra_simps)
  also have "\<dots> = p * D" unfolding xD by (simp add: D_def algebra_simps)
  finally have 1: "(x0 + a * x2 + b * x3) * D = p * D" .
  have "(x1 + b * x2 - a * x3) * D = x1 * D + b * (x2 * D) - a * (x3 * D)"
    by (simp add: algebra_simps)
  also have "\<dots> = q * D" unfolding xD by (simp add: D_def algebra_simps)
  finally have 2: "(x1 + b * x2 - a * x3) * D = q * D" .
  have "(a * x0 + b * x1 + x2) * D = a * (x0 * D) + b * (x1 * D) + x2 * D"
    by (simp add: algebra_simps)
  also have "\<dots> = 0 * D" unfolding xD by (simp add: algebra_simps)
  finally have 3: "(a * x0 + b * x1 + x2) * D = 0 * D" .
  have "(b * x0 - a * x1 + x3) * D = b * (x0 * D) - a * (x1 * D) + x3 * D"
    by (simp add: algebra_simps)
  also have "\<dots> = 0 * D" unfolding xD by (simp add: algebra_simps)
  finally have 4: "(b * x0 - a * x1 + x3) * D = 0 * D" .
  from 1 2 3 4 nz show ?thesis by simp
qed

lemma legacy_lhs:
  "vstack (hstack (identity 2, [[a, b], [b, - a]]), hstack ([[a, b], [b, - a]], identity 2)) =
     [[1, 0, a, b], [0, 1, b, - a], [a, b, 1, 0], [b, - a, 0, 1]]"
  by (simp add: vstack_def hstack_def identity2)

lemma legacy_matrix0:
  fixes D :: real
  assumes "D \<noteq> 0"
    and "res = [Re t / D, Im t / D, - (Re r * Re t + Im r * Im t) / D,
                - (Im r * Re t - Re r * Im t) / D]"
  shows "[[of_real (res ! 0) + \<i> * of_real (res ! 1), of_real (res ! 2) - \<i> * of_real (res ! 3)],
          [of_real (res ! 2) + \<i> * of_real (res ! 3), of_real (res ! 0) - \<i> * of_real (res ! 1)]]
       = [[t / of_real D, - (cnj r * t) / of_real D],
          [- (r * cnj t) / of_real D, cnj t / of_real D]]"
  using assms by (simp add: complex_eq_iff eval_nat_numeral field_simps)

text \<open>The legacy function up to the boundary correction.\<close>

lemma findReciprocalTransferMatrixLegacy_eval:
  "findReciprocalTransferMatrixLegacy t r bottomMat topMat =
     (if 1 - Re r * Re r - Im r * Im r = 0 then Inl LinAlgError
      else
        case inv (matrix bottomMat) of
          Inl e \<Rightarrow> Inl e
        | Inr bottomInv \<Rightarrow>
           (case inv (matrix topMat) of
              Inl e \<Rightarrow> Inl e
            | Inr topInv \<Rightarrow>
                Inr \<lparr>matrix = dot (dot bottomInv
                  [[t / of_real (1 - Re r * Re r - Im r * Im r),
                    - (cnj r * t) / of_real (1 - Re r * Re r - Im r * Im r)],
                   [- (r * cnj t) / of_real (1 - Re r * Re r - Im r * Im r),
                    cnj t / of_real (1 - Re r * Re r - Im r * Im r)]]) topInv\<rparr>))"
proof (cases "1 - Re r * Re r - Im r * Im r = 0")
  case True
  then show ?thesis
    by (simp add: findReciprocalTransferMatrixLegacy_def legacy_lhs solve4_legacy)
next
  case False
  define D where "D = 1 - Re r * Re r - Im r * Im r"
  define res where "res = [Re t / D, Im t / D, - (Re r * Re t + Im r * Im t) / D,
                - (Im r * Re t - Re r * Im t) / D]"
  have nz: "D \<noteq> 0" using False by (simp add: D_def)
  have S: "solve [[1, 0, Re r, Im r], [0, 1, Im r, - Re r], [Re r, Im r, 1, 0], [Im r, - Re r, 0, 1]]
             [Re t, Im t, 0, 0] = Inr res"
    using False unfolding res_def D_def by (simp only: solve4_legacy if_False)
  note M0 = legacy_matrix0[OF nz res_def]
  have "findReciprocalTransferMatrixLegacy t r bottomMat topMat =
        (case inv (matrix bottomMat) of
          Inl e \<Rightarrow> Inl e
        | Inr bottomInv \<Rightarrow>
           (case inv (matrix topMat) of
              Inl e \<Rightarrow> Inl e
            | Inr topInv \<Rightarrow>
                Inr \<lparr>matrix = dot (dot bottomInv
                  [[t / of_real D, - (cnj r * t) / of_real D],
                   [- (r * cnj t) / of_real D, cnj t / of_real D]]) topInv\<rparr>))"
    unfolding findReciprocalTransferMatrixLegacy_def Let_def legacy_lhs S
    by (simp only: sum.case M0)
  then show ?thesis using False unfolding D_def by (simp only: if_False)
qed

section \<open>The reciprocal solvers and the generalized solver\<close>

lemma findReciprocalTransferMatrix_eval:
  "t \<noteq> 0 \<Longrightarrow> findReciprocalTransferMatrix t r bottomMat topMat =
     (case inv (matrix bottomMat) of
          Inl e \<Rightarrow> Inl e
        | Inr bottomInv \<Rightarrow>
           (case inv (matrix topMat) of
              Inl e \<Rightarrow> Inl e
            | Inr topInv \<Rightarrow>
                Inr \<lparr>matrix = dot (dot bottomInv
                  [[1 / cnj t, r / t], [cnj (r / t), 1 / t]]) topInv\<rparr>))"
  unfolding findReciprocalTransferMatrix_def Let_def by simp

lemma inv_identity2: "inv (identity 2 :: complex list list) = Inr [[1, 0], [0, 1]]"
  by (simp add: identity2 inv2)

lemma default_bounding_eval:
  "findReciprocalTransferMatrix t r default_bounding default_bounding =
     (if t = 0 then Inl AssertionError
      else Inr \<lparr>matrix = [[1 / cnj t, r / t], [cnj (r / t), 1 / t]]\<rparr>)"
  by (simp add: findReciprocalTransferMatrix_def default_bounding_def inv_identity2 dot2 Let_def)

lemma default_bounding_legacy_eval:
  "findReciprocalTransferMatrixLegacy t r default_bounding default_bounding =
     (if 1 - Re r * Re r - Im r * Im r = 0 then Inl LinAlgError
      else Inr \<lparr>matrix =
                  [[t / of_real (1 - Re r * Re r - Im r * Im r),
                    - (cnj r * t) / of_real (1 - Re r * Re r - Im r * Im r)],
                   [- (r * cnj t) / of_real (1 - Re r * Re r - Im r * Im r),
                    cnj t / of_real (1 - Re r * Re r - Im r * Im r)]]\<rparr>)"
  unfolding findReciprocalTransferMatrixLegacy_eval
  by (simp add: default_bounding_def inv_identity2 dot2)

text \<open>
  Claim C5 at the lossless pair \<open>t = 3/5\<close>, \<open>r = 4/5\<close> with the default (identity)
  bounding matrices. The claim says that the two functions return the same matrix.
  \<open>findReciprocalTransferMatrixLegacy\<close> returns \<open>[[5/3, -4/3], [-4/3, 5/3]]\<close>, which
  satisfies the relation of the class docstring, \<open>Matrix \<cdot> (1, r) = (t, 0)\<close>;
  \<open>findReciprocalTransferMatrix\<close> returns \<open>[[5/3, 4/3], [4/3, 5/3]]\<close>, which maps
  \<open>(1, r)\<close> to \<open>(41/15, 8/3)\<close>: the off-diagonal entries of its closed formula have the
  wrong sign for that relation.
\<close>

theorem reciprocal_formula_differs_from_legacy:
  "findReciprocalTransferMatrix (3 / 5) (4 / 5) default_bounding default_bounding
     = Inr \<lparr>matrix = [[5 / 3, 4 / 3], [4 / 3, 5 / 3]]\<rparr>
   \<and> findReciprocalTransferMatrixLegacy (3 / 5) (4 / 5) default_bounding default_bounding
     = Inr \<lparr>matrix = [[5 / 3, - (4 / 3)], [- (4 / 3), 5 / 3]]\<rparr>
   \<and> dot [[5 / 3, - (4 / 3)], [- (4 / 3), 5 / 3]] [[1], [4 / 5]] = [[3 / 5], [0 :: complex]]
   \<and> dot [[5 / 3, 4 / 3], [4 / 3, 5 / 3]] [[1], [4 / 5]] = [[41 / 15], [8 / 3 :: complex]]"
  by (simp add: default_bounding_eval default_bounding_legacy_eval dot2_col)

text \<open>
  The two functions do return the same result on pairs with \<open>|r|\<^sup>2 + |t|\<^sup>2 = 1\<close> and
  \<open>Re (r \<cdot> conj t) = 0\<close> (lossless, \<open>r\<close> and \<open>t\<close> in phase quadrature), where the sign of
  the off-diagonal entries does not show.
\<close>

lemma closed_formula_agrees_in_quadrature:
  assumes "t \<noteq> 0" and "(cmod r)\<^sup>2 + (cmod t)\<^sup>2 = 1" and "Re (r * cnj t) = 0"
  shows "findReciprocalTransferMatrixLegacy t r bottomMat topMat
         = findReciprocalTransferMatrix t r bottomMat topMat"
proof -
  let ?D = "1 - Re r * Re r - Im r * Im r"
  have "(cmod r)\<^sup>2 = Re r * Re r + Im r * Im r"
    unfolding cmod_power2 by (simp add: power2_eq_square)
  with assms(2) have D: "?D = (cmod t)\<^sup>2"
    by linarith
  have nz: "?D \<noteq> 0" using assms(1) D by simp
  have tt: "of_real ?D = t * cnj t"
    unfolding D by (rule complex_norm_square)
  have "r * cnj t + cnj (r * cnj t) = 0"
    using assms(3) by (simp add: complex_eq_iff algebra_simps)
  then have anti: "cnj r * t = - (r * cnj t)"
    by (simp add: add_eq_0_iff)
  have e00: "t / of_real ?D = 1 / cnj t"
    unfolding tt using assms(1) by simp
  have e11: "cnj t / of_real ?D = 1 / t"
    unfolding tt using assms(1) by simp
  have e01: "- (cnj r * t) / of_real ?D = r / t"
    unfolding tt anti using assms(1) by simp
  have e10: "- (r * cnj t) / of_real ?D = cnj (r / t)"
    unfolding tt using assms(1) anti by (simp add: field_simps)
  show ?thesis
    unfolding findReciprocalTransferMatrixLegacy_eval findReciprocalTransferMatrix_eval[OF assms(1)]
      e00 e01 e10 e11
    using nz by (simp only: if_False)
qed


text \<open>
  The matrices that \<open>layer\<close> builds for a real refractive index are reciprocal, of
  determinant \<open>1\<close>, with a purely imaginary off-diagonal entry.
\<close>

lemma sandwich:
  fixes n :: complex
  assumes "n \<noteq> 0"
  shows "dot [[(1 + n) / 2, - (n - 1) / 2], [- (n - 1) / 2, (1 + n) / 2]]
           (dot [[E, 0], [0, F]]
              (dot [[(1 + n) / (2 * n), (n - 1) / (2 * n)], [(n - 1) / (2 * n), (1 + n) / (2 * n)]]
                 (identity 2))) =
         [[((1 + n) * (1 + n) * E - (n - 1) * (n - 1) * F) / (4 * n),
           (n * n - 1) * (E - F) / (4 * n)],
          [(n * n - 1) * (F - E) / (4 * n),
           ((1 + n) * (1 + n) * F - (n - 1) * (n - 1) * E) / (4 * n)]]"
  using assms by (simp add: identity2 dot2 field_simps)

lemma sandwich_det:
  fixes n :: complex
  assumes "n \<noteq> 0" and "E * F = 1"
  shows "((1 + n) * (1 + n) * E - (n - 1) * (n - 1) * F) / (4 * n)
           * (((1 + n) * (1 + n) * F - (n - 1) * (n - 1) * E) / (4 * n))
         - (n * n - 1) * (E - F) / (4 * n) * ((n * n - 1) * (F - E) / (4 * n)) = 1"
proof -
  have "((1 + n) * (1 + n) * E - (n - 1) * (n - 1) * F)
           * ((1 + n) * (1 + n) * F - (n - 1) * (n - 1) * E)
         - (n * n - 1) * (E - F) * ((n * n - 1) * (F - E)) = (4 * n) * (4 * n)"
    using assms(2) by algebra
  then show ?thesis using assms(1) by (simp add: field_simps)
qed


lemma layer_real_index:
  assumes "x \<noteq> 0" and "wavelength \<noteq> 0"
  shows "\<exists>p q. layer (of_real x) d wavelength = Inr \<lparr>matrix = [[p, q], [cnj q, cnj p]]\<rparr>
           \<and> p * cnj p - q * cnj q = 1 \<and> Re q = 0"
proof -
  define n where "n = complex_of_real x"
  define \<phi> where "\<phi> = x * d * 2 * pi / wavelength"
  define E where "E = cis (- \<phi>)"
  define F where "F = cis \<phi>"
  define p where "p = ((1 + n) * (1 + n) * E - (n - 1) * (n - 1) * F) / (4 * n)"
  define q where "q = (n * n - 1) * (E - F) / (4 * n)"
  have nz: "n \<noteq> 0" using assms(1) by (simp add: n_def)
  have cn: "cnj n = n" by (simp add: n_def)
  have cE: "cnj E = F" and cF: "cnj F = E" by (simp_all add: E_def F_def cis_cnj)
  have EF: "E * F = 1" by (simp add: E_def F_def cis_mult)
  have e: "exp (- (\<i> * n * of_real d * 2 * of_real pi / of_real wavelength)) = E"
    unfolding E_def cis_conv_exp by (simp add: \<phi>_def n_def mult.assoc)
  have f: "exp (\<i> * n * of_real d * 2 * of_real pi / of_real wavelength) = F"
    unfolding F_def cis_conv_exp by (simp add: \<phi>_def n_def mult.assoc)
  have cq: "cnj q = (n * n - 1) * (F - E) / (4 * n)"
    by (simp add: q_def cn cE cF)
  have cp: "cnj p = ((1 + n) * (1 + n) * F - (n - 1) * (n - 1) * E) / (4 * n)"
    by (simp add: p_def cn cE cF)
  have "layer n d wavelength =
      Inr \<lparr>matrix = dot [[(1 + n) / 2, - (n - 1) / 2], [- (n - 1) / 2, (1 + n) / 2]]
           (dot [[E, 0], [0, F]]
              (dot [[(1 + n) / (2 * n), (n - 1) / (2 * n)], [(n - 1) / (2 * n), (1 + n) / (2 * n)]]
                 (identity 2)))\<rparr>"
    using nz assms(2) by (simp add: layer_def structure_def Let_def e f)
  then have L: "layer n d wavelength = Inr \<lparr>matrix = [[p, q], [cnj q, cnj p]]\<rparr>"
    unfolding cq cp unfolding p_def q_def sandwich[OF nz] .
  have D: "p * cnj p - q * cnj q = 1"
    unfolding cq cp unfolding p_def q_def by (rule sandwich_det[OF nz EF])
  have "q = of_real ((x * x - 1) / (4 * x)) * (E - F)"
    by (simp add: q_def n_def)
  then have "Re q = (x * x - 1) / (4 * x) * Re (E - F)"
    by (simp only: complex.sel times_complex.sel Re_complex_of_real Im_complex_of_real
        mult_zero_left diff_zero)
  also have "Re (E - F) = 0" by (simp add: E_def F_def)
  finally have R: "Re q = 0" by simp
  from L D R show ?thesis unfolding n_def by blast
qed

text \<open>
  The round trip through the legacy function returns every reciprocal matrix
  \<open>M = [[p, q], [conj q, conj p]]\<close> with \<open>p \<noteq> 0\<close> and \<open>|p|\<^sup>2 \<noteq> |q|\<^sup>2\<close>.
\<close>

lemma legacy_roundtrip:
  assumes pz: "p \<noteq> 0" and dz: "p * cnj p - q * cnj q \<noteq> 0"
  shows "\<exists>r t. solvePropagation \<lparr>matrix = [[p, q], [cnj q, cnj p]]\<rparr> 1 = Inr (r, t)
           \<and> findReciprocalTransferMatrixLegacy t r default_bounding default_bounding
               = Inr \<lparr>matrix = [[p, q], [cnj q, cnj p]]\<rparr>"
proof -
  define r where "r = - cnj q / cnj p"
  define t where "t = (p * cnj p - q * cnj q) / cnj p"
  define D where "D = 1 - Re r * Re r - Im r * Im r"
  have sp: "solvePropagation \<lparr>matrix = [[p, q], [cnj q, cnj p]]\<rparr> 1 = Inr (r, t)"
    using pz by (simp add: solvePropagation2 r_def t_def)
  have "complex_of_real D = 1 - r * cnj r"
    by (simp add: D_def complex_eq_iff)
  also have "\<dots> = (p * cnj p - q * cnj q) / (p * cnj p)"
    using pz by (simp add: r_def field_simps)
  finally have D: "complex_of_real D = (p * cnj p - q * cnj q) / (p * cnj p)" .
  have Dz: "D \<noteq> 0"
  proof
    assume "D = 0"
    with D have "(p * cnj p - q * cnj q) / (p * cnj p) = 0" by simp
    with pz dz show False by simp
  qed
  have e00: "t / of_real D = p"
    unfolding D t_def using pz dz by simp
  have e11: "cnj t / of_real D = cnj p"
    unfolding D t_def using pz dz by (simp add: field_simps)
  have e01: "- (cnj r * t) / of_real D = q"
    unfolding D t_def r_def using pz dz by (simp add: field_simps)
  have e10: "- (r * cnj t) / of_real D = cnj q"
    unfolding D t_def r_def using pz dz by (simp add: field_simps)
  have "findReciprocalTransferMatrixLegacy t r default_bounding default_bounding
               = Inr \<lparr>matrix = [[p, q], [cnj q, cnj p]]\<rparr>"
    unfolding default_bounding_legacy_eval D_def[symmetric] e00 e01 e10 e11
    using Dz by (simp only: if_False)
  with sp show ?thesis by blast
qed

text \<open>
  Claim C8 at the reciprocal matrix \<open>M = [[5/3, 4/3], [4/3, 5/3]]\<close> of determinant \<open>1\<close>.
  \<open>solvePropagation M\<close> is nonsingular and returns \<open>(r, t) = (-4/5, 3/5)\<close> with
  \<open>t \<noteq> 0\<close>. The claim says that \<open>findReciprocalTransferMatrix t r\<close> returns \<open>M\<close>; it
  returns \<open>[[5/3, -4/3], [-4/3, 5/3]]\<close>, the off-diagonal entries negated, while
  \<open>findReciprocalTransferMatrixLegacy t r\<close> returns \<open>M\<close>.
\<close>

theorem reciprocal_roundtrip_returns_other_matrix:
  "cnj (5 / 3) = 5 / 3 \<and> cnj (4 / 3) = 4 / 3
   \<and> solvePropagation \<lparr>matrix = [[5 / 3, 4 / 3], [4 / 3, 5 / 3]]\<rparr> 1 = Inr (- (4 / 5), 3 / 5)
   \<and> findReciprocalTransferMatrix (3 / 5) (- (4 / 5)) default_bounding default_bounding
       = Inr \<lparr>matrix = [[5 / 3, - (4 / 3)], [- (4 / 3), 5 / 3]]\<rparr>
   \<and> findReciprocalTransferMatrixLegacy (3 / 5) (- (4 / 5)) default_bounding default_bounding
       = Inr \<lparr>matrix = [[5 / 3, 4 / 3], [4 / 3, 5 / 3]]\<rparr>"
  by (simp add: solvePropagation2 default_bounding_eval default_bounding_legacy_eval)

text \<open>
  The round trip through the closed formula does return \<open>M\<close> when \<open>det M = 1\<close> and \<open>q\<close> is
  purely imaginary.
\<close>

lemma closed_formula_roundtrip_imaginary:
  assumes "p * cnj p - q * cnj q = 1" and "Re q = 0"
  shows "\<exists>r t. solvePropagation \<lparr>matrix = [[p, q], [cnj q, cnj p]]\<rparr> 1 = Inr (r, t) \<and> t \<noteq> 0
           \<and> findReciprocalTransferMatrix t r default_bounding default_bounding
               = Inr \<lparr>matrix = [[p, q], [cnj q, cnj p]]\<rparr>"
proof -
  have "of_real ((cmod p)\<^sup>2) - of_real ((cmod q)\<^sup>2) = (1 :: complex)"
    unfolding complex_norm_square by (rule assms(1))
  then have "complex_of_real ((cmod p)\<^sup>2 - (cmod q)\<^sup>2) = of_real 1" by simp
  then have "(cmod p)\<^sup>2 - (cmod q)\<^sup>2 = 1" by (simp only: of_real_eq_iff)
  then have "(cmod p)\<^sup>2 \<noteq> 0"
    using zero_le_power2[of "cmod q"] by linarith
  then have pz: "p \<noteq> 0" by auto
  have cq: "cnj q = - q"
    using assms(2) by (simp add: complex_eq_iff)
  let ?r = "- (cnj q * 1) / cnj p"
  let ?t = "(p * 1 * cnj p - q * (cnj q * 1)) / cnj p"
  have sp: "solvePropagation \<lparr>matrix = [[p, q], [cnj q, cnj p]]\<rparr> 1 = Inr (?r, ?t)"
    using pz by (simp add: solvePropagation2)
  have t: "?t = 1 / cnj p" using assms(1) by simp
  have tz: "?t \<noteq> 0" unfolding t using pz by simp
  have e00: "1 / cnj ?t = p" unfolding t using pz by simp
  have e11: "1 / ?t = cnj p" unfolding t using pz by simp
  have e01: "?r / ?t = q" unfolding t using pz cq by simp
  have e10: "cnj (?r / ?t) = cnj q" unfolding e01 by simp
  have "findReciprocalTransferMatrix ?t ?r default_bounding default_bounding
               = Inr \<lparr>matrix = [[p, q], [cnj q, cnj p]]\<rparr>"
    unfolding default_bounding_eval e00 e01 e10 e11 using tz by (simp only: if_False)
  with sp tz show ?thesis by blast
qed

lemma solvePropagation_relation:
  assumes "solvePropagation \<lparr>matrix = [[T00, T01], [T10, T11]]\<rparr> 1 = Inr (r, t)"
  shows "T00 + T01 * r = t \<and> T10 + T11 * r = 0"
proof -
  have nz: "T11 \<noteq> 0"
  proof
    assume "T11 = 0"
    with assms show False by (simp add: solvePropagation2)
  qed
  with assms have r: "r = - T10 / T11" and t: "t = (T00 * T11 - T01 * T10) / T11"
    by (simp_all add: solvePropagation2)
  show ?thesis unfolding r t using nz by (simp add: field_simps)
qed

lemma inv2_left:
  assumes "dot [[a, b], [c, d]] [[e, f], [g, h]] = identity 2"
  shows "e * a + f * c = 1 \<and> e * b + f * d = 0 \<and> g * a + h * c = 0 \<and> g * b + h * d = (1 :: 'a :: field)"
proof -
  define D where "D = a * d - b * c"
  note I = inv2_unique[OF assms]
  have nz: "D \<noteq> 0"
  proof
    assume "D = 0"
    with I show False by (simp add: inv2 D_def)
  qed
  with I have "e = d / D" "f = - b / D" "g = - c / D" "h = a / D"
    by (simp_all add: inv2 D_def)
  with nz have eD: "e * D = d" and fD: "f * D = - b" and gD: "g * D = - c" and hD: "h * D = a"
    by simp_all
  have "(e * a + f * c) * D = (e * D) * a + (f * D) * c" by (simp add: algebra_simps)
  also have "\<dots> = 1 * D" unfolding eD fD by (simp add: D_def algebra_simps)
  finally have 1: "e * a + f * c = 1" using nz by simp
  have "(e * b + f * d) * D = (e * D) * b + (f * D) * d" by (simp add: algebra_simps)
  also have "\<dots> = 0 * D" unfolding eD fD by (simp add: algebra_simps)
  finally have 2: "e * b + f * d = 0" using nz by simp
  have "(g * a + h * c) * D = (g * D) * a + (h * D) * c" by (simp add: algebra_simps)
  also have "\<dots> = 0 * D" unfolding gD hD by (simp add: algebra_simps)
  finally have 3: "g * a + h * c = 0" using nz by simp
  have "(g * b + h * d) * D = (g * D) * b + (h * D) * d" by (simp add: algebra_simps)
  also have "\<dots> = 1 * D" unfolding gD hD by (simp add: D_def algebra_simps)
  finally have 4: "g * b + h * d = 1" using nz by simp
  show ?thesis using 1 2 3 4 by (intro conjI)
qed

text \<open>One measurement: from the scattering pair of \<open>B \<cdot> M \<cdot> P\<close>, the vectors
  \<open>a = B\<^sup>-\<^sup>1 (t, 0)\<close> and \<open>b = P (1, r)\<close> of the generalized solver satisfy \<open>M b = a\<close>.\<close>

lemma measurement_vectors:
  fixes m00 :: complex
  assumes B: "dot [[b00, b01], [b10, b11]] [[c00, c01], [c10, c11]] = identity 2"
    and S: "solvePropagation
              \<lparr>matrix = dot (dot [[b00, b01], [b10, b11]] [[m00, m01], [m10, m11]])
                            [[p00, p01], [p10, p11]]\<rparr> 1 = Inr (r, t)"
  shows "dot [[c00, c01], [c10, c11]] [[t], [0]] =
           [[m00 * (p00 + p01 * r) + m01 * (p10 + p11 * r)],
            [m10 * (p00 + p01 * r) + m11 * (p10 + p11 * r)]]"
proof -
  let ?u0 = "m00 * (p00 + p01 * r) + m01 * (p10 + p11 * r)"
  let ?u1 = "m10 * (p00 + p01 * r) + m11 * (p10 + p11 * r)"
  from solvePropagation_relation[OF S[unfolded dot2]]
  have "b00 * ?u0 + b01 * ?u1 = t" and z: "b10 * ?u0 + b11 * ?u1 = 0"
    by (simp_all add: algebra_simps)
  then have t: "t = b00 * ?u0 + b01 * ?u1" by simp
  from inv2_left[OF B] have L: "c00 * b00 + c01 * b10 = 1" "c00 * b01 + c01 * b11 = 0"
    "c10 * b00 + c11 * b10 = 0" "c10 * b01 + c11 * b11 = 1" by blast+
  have "c00 * t = c00 * (b00 * ?u0 + b01 * ?u1) + c01 * (b10 * ?u0 + b11 * ?u1)"
    unfolding z t by simp
  also have "\<dots> = (c00 * b00 + c01 * b10) * ?u0 + (c00 * b01 + c01 * b11) * ?u1"
    by (simp only: distrib_left distrib_right mult.assoc add_ac)
  also have "\<dots> = ?u0" unfolding L by simp
  finally have a0: "c00 * t = ?u0" .
  have "c10 * t = c10 * (b00 * ?u0 + b01 * ?u1) + c11 * (b10 * ?u0 + b11 * ?u1)"
    unfolding z t by simp
  also have "\<dots> = (c10 * b00 + c11 * b10) * ?u0 + (c10 * b01 + c11 * b11) * ?u1"
    by (simp only: distrib_left distrib_right mult.assoc add_ac)
  also have "\<dots> = ?u1" unfolding L by simp
  finally have a1: "c10 * t = ?u1" .
  show ?thesis unfolding dot2_col using a0 a1 by simp
qed


text \<open>The block system has the solution it was built from, row by row.\<close>

lemma solve4_block_rows:
  fixes a :: "'a :: field"
  assumes nz: "a * d - b * c \<noteq> 0"
    and e: "e = x0 * a + x1 * b" and f: "f = x0 * c + x1 * d"
    and g: "g = y0 * a + y1 * b" and h: "h = y0 * c + y1 * d"
  shows "solve [[a, b, 0, 0], [c, d, 0, 0], [0, 0, a, b], [0, 0, c, d]] [e, f, g, h] =
           Inr [x0, x1, y0, y1]"
proof -
  have "e * d - b * f = x0 * (a * d - b * c)" unfolding e f by (simp add: algebra_simps)
  then have 0: "(e * d - b * f) / (a * d - b * c) = x0" using nz by simp
  have "a * f - e * c = x1 * (a * d - b * c)" unfolding e f by (simp add: algebra_simps)
  then have 1: "(a * f - e * c) / (a * d - b * c) = x1" using nz by simp
  have "g * d - b * h = y0 * (a * d - b * c)" unfolding g h by (simp add: algebra_simps)
  then have 2: "(g * d - b * h) / (a * d - b * c) = y0" using nz by simp
  have "a * h - g * c = y1 * (a * d - b * c)" unfolding g h by (simp add: algebra_simps)
  then have 3: "(a * h - g * c) / (a * d - b * c) = y1" using nz by simp
  show ?thesis unfolding solve4_block 0 1 2 3 using nz by (simp only: if_False)
qed

text \<open>
  For two measurements of the same \<open>M\<close> the solution of the 4x4 system holds the rows of
  \<open>M\<close>, and the function returns it column by column.
\<close>

lemma findGeneralizedTransferMatrix_transposed:
  assumes B1: "dot [[b00, b01], [b10, b11]] [[c00, c01], [c10, c11]] = identity 2"
    and B2: "dot [[b00', b01'], [b10', b11']] [[c00', c01'], [c10', c11']] = identity 2"
    and S1: "solvePropagation
              \<lparr>matrix = dot (dot [[b00, b01], [b10, b11]] [[m00, m01], [m10, m11]])
                            [[p00, p01], [p10, p11]]\<rparr> 1 = Inr (r1, t1)"
    and S2: "solvePropagation
              \<lparr>matrix = dot (dot [[b00', b01'], [b10', b11']] [[m00, m01], [m10, m11]])
                            [[p00', p01'], [p10', p11']]\<rparr> 1 = Inr (r2, t2)"
    and ns: "(p00 + p01 * r1) * (p10' + p11' * r2) - (p10 + p11 * r1) * (p00' + p01' * r2) \<noteq> 0"
  shows "findGeneralizedTransferMatrix t1 r1 t2 r2
           \<lparr>matrix = [[b00, b01], [b10, b11]]\<rparr> \<lparr>matrix = [[p00, p01], [p10, p11]]\<rparr>
           \<lparr>matrix = [[b00', b01'], [b10', b11']]\<rparr> \<lparr>matrix = [[p00', p01'], [p10', p11']]\<rparr>
         = Inr \<lparr>matrix = [[m00, m10], [m01, m11]]\<rparr>"
proof -
  define x0 where "x0 = p00 + p01 * r1"
  define x1 where "x1 = p10 + p11 * r1"
  define y0 where "y0 = p00' + p01' * r2"
  define y1 where "y1 = p10' + p11' * r2"
  note I1 = inv2_unique[OF B1] and I2 = inv2_unique[OF B2]
  have A1: "dot [[c00, c01], [c10, c11]] [[t1], [0]] =
      [[m00 * x0 + m01 * x1], [m10 * x0 + m11 * x1]]"
    unfolding x0_def x1_def by (rule measurement_vectors[OF B1 S1])
  have A2: "dot [[c00', c01'], [c10', c11']] [[t2], [0]] =
      [[m00 * y0 + m01 * y1], [m10 * y0 + m11 * y1]]"
    unfolding y0_def y1_def by (rule measurement_vectors[OF B2 S2])
  have V1: "dot [[p00, p01], [p10, p11]] [[1], [r1]] = [[x0], [x1]]"
    by (simp add: dot2_col x0_def x1_def)
  have V2: "dot [[p00', p01'], [p10', p11']] [[1], [r2]] = [[y0], [y1]]"
    by (simp add: dot2_col y0_def y1_def)
  have nz: "x0 * y1 - x1 * y0 \<noteq> 0"
    using ns by (simp add: x0_def x1_def y0_def y1_def)
  have S: "solve [[x0, x1, 0, 0], [y0, y1, 0, 0], [0, 0, x0, x1], [0, 0, y0, y1]]
             [m00 * x0 + m01 * x1, m00 * y0 + m01 * y1, m10 * x0 + m11 * x1, m10 * y0 + m11 * y1]
           = Inr [m00, m01, m10, m11]"
    by (rule solve4_block_rows[OF nz refl refl refl refl])
  show ?thesis
    unfolding findGeneralizedTransferMatrix_def Let_def
    by (simp only: TransferMatrix.simps I1 I2 sum.case A1 A2 V1 V2 nth_Cons_0 nth_Cons_Suc
        One_nat_def hstack2 zeros22 vstack_def fst_conv snd_conv append.simps S
        numeral_One) simp
qed

text \<open>
  Claim C6 at \<open>M = [[1, 2], [1, 1]]\<close>. The first measurement has identity bounding
  matrices, the second the bottom matrix \<open>M\<close> and the identity as top, so that the
  measured systems are \<open>M\<close> and \<open>M \<cdot> M\<close>. \<open>solvePropagation\<close> gives \<open>(r\<^sub>1, t\<^sub>1) = (-1, -1)\<close>
  and \<open>(r\<^sub>2, t\<^sub>2) = (-2/3, 1/3)\<close>; the 4x4 system is nonsingular, and
  \<open>findGeneralizedTransferMatrix\<close> returns \<open>[[1, 1], [2, 1]]\<close>, the transpose of \<open>M\<close>.
\<close>

theorem generalized_returns_transpose_example:
  "solvePropagation \<lparr>matrix = dot (dot (identity 2) [[1, 2], [1, 1]]) (identity 2)\<rparr> 1
      = Inr (- 1, - 1)
   \<and> solvePropagation \<lparr>matrix = dot (dot [[1, 2], [1, 1]] [[1, 2], [1, 1]]) (identity 2)\<rparr> 1
      = Inr (- (2 / 3), 1 / 3)
   \<and> findGeneralizedTransferMatrix (- 1) (- 1) (1 / 3) (- (2 / 3))
        \<lparr>matrix = identity 2\<rparr> \<lparr>matrix = identity 2\<rparr>
        \<lparr>matrix = [[1, 2], [1, 1]]\<rparr> \<lparr>matrix = identity 2\<rparr>
      = Inr \<lparr>matrix = [[1, 1], [2, 1]]\<rparr>"
proof -
  have a: "solvePropagation \<lparr>matrix = dot (dot (identity 2) [[1, 2], [1, 1]]) (identity 2)\<rparr> 1
      = Inr (- 1, - 1)"
    by (simp add: identity2 dot2 solvePropagation2)
  have b: "solvePropagation \<lparr>matrix = dot (dot [[1, 2], [1, 1]] [[1, 2], [1, 1]]) (identity 2)\<rparr> 1
      = Inr (- (2 / 3), 1 / 3)"
    by (simp add: identity2 dot2 solvePropagation2)
  have c: "findGeneralizedTransferMatrix (- 1) (- 1) (1 / 3) (- (2 / 3))
        \<lparr>matrix = identity 2\<rparr> \<lparr>matrix = identity 2\<rparr>
        \<lparr>matrix = [[1, 2], [1, 1]]\<rparr> \<lparr>matrix = identity 2\<rparr>
      = Inr \<lparr>matrix = [[1, 1], [2, 1]]\<rparr>"
    by (simp add: findGeneralizedTransferMatrix_def identity2 inv2 dot2_col hstack2 zeros22
        vstack_def solve4_block Let_def del: det.simps)
  show ?thesis using a b c by (intro conjI)
qed

section \<open>The solvers on the store of the loaded module\<close>

text \<open>
  The theorem of claim C10 on the store of the freshly loaded module: each of the three
  solvers, called with all defaults, returns the new object \<open>8\<close> and leaves its default
  instances the identity, and so they are after the three calls in a row.
\<close>

theorem solvers_keep_store_witness:
  "findReciprocalTransferMatrix_obj 2 0 None None module_store =
     Inr (new_TransferMatrix [[1 / 2, 0], [0, 1 / 2]] module_store)
   \<and> fst (new_TransferMatrix [[1 / 2, 0], [0, 1 / 2]] module_store) = 8
   \<and> objs (snd (new_TransferMatrix [[1 / 2, 0], [0, 1 / 2]] module_store)) 0 = [[1, 0], [0, 1]]
   \<and> objs (snd (new_TransferMatrix [[1 / 2, 0], [0, 1 / 2]] module_store)) 1 = [[1, 0], [0, 1]]
   \<and> findReciprocalTransferMatrixLegacy_obj 2 0 None None module_store =
     Inr (new_TransferMatrix [[2, 0], [0, 2]] module_store)
   \<and> objs (snd (new_TransferMatrix [[2, 0], [0, 2]] module_store)) 2 = [[1, 0], [0, 1]]
   \<and> objs (snd (new_TransferMatrix [[2, 0], [0, 2]] module_store)) 3 = [[1, 0], [0, 1]]
   \<and> findGeneralizedTransferMatrix_obj 1 0 1 1 None None None None module_store =
     Inr (new_TransferMatrix [[1, 0], [0, 0]] module_store)
   \<and> objs (snd (new_TransferMatrix [[1, 0], [0, 0]] module_store)) 4 = [[1, 0], [0, 1]]
   \<and> objs (snd (new_TransferMatrix [[1, 0], [0, 0]] module_store)) 7 = [[1, 0], [0, 1]]
   \<and> objs (run_calls [Reciprocal 2 0 None None, ReciprocalLegacy 2 0 None None,
                      Generalized 1 0 1 1 None None None None] module_store) 0 = [[1, 0], [0, 1]]"
proof -
  let ?m = "[[1 / 2, 0], [0, 1 / 2 :: complex]]"
  let ?l = "[[2, 0], [0, 2 :: complex]]"
  let ?g = "[[1, 0], [0, 0 :: complex]]"
  obtain res s' where new: "new_TransferMatrix ?m module_store = (res, s')"
    by (cases "new_TransferMatrix ?m module_store")
  obtain resl sl where newl: "new_TransferMatrix ?l module_store = (resl, sl)"
    by (cases "new_TransferMatrix ?l module_store")
  obtain resg sg where newg: "new_TransferMatrix ?g module_store = (resg, sg)"
    by (cases "new_TransferMatrix ?g module_store")
  have o: "\<And>d. d < 8 \<Longrightarrow> objs module_store d = [[1, 0], [0, 1]]"
    and n: "next_ref module_store = 8"
    using module_store_eq by (simp_all add: identity2)
  have call: "findReciprocalTransferMatrix_obj 2 0 None None module_store = Inr (res, s')"
    by (simp add: findReciprocalTransferMatrix_obj_def arg_or_def o inv2 dot2 new)
  have calll: "findReciprocalTransferMatrixLegacy_obj 2 0 None None module_store = Inr (resl, sl)"
  proof -
    have v: "findReciprocalTransferMatrixLegacy 2 0 default_bounding default_bounding
        = Inr \<lparr>matrix = [[2, 0], [0, 2]]\<rparr>"
      by (simp add: default_bounding_legacy_eval)
    have d: "\<lparr>matrix = objs module_store 2\<rparr> = default_bounding"
      "\<lparr>matrix = objs module_store 3\<rparr> = default_bounding"
      using module_store_eq by (simp_all add: default_bounding_def)
    show ?thesis
      unfolding findReciprocalTransferMatrixLegacy_obj_value
      by (simp add: arg_or_def d v newl)
  qed
  have callg: "findGeneralizedTransferMatrix_obj 1 0 1 1 None None None None module_store
      = Inr (resg, sg)"
    by (simp add: findGeneralizedTransferMatrix_obj_def arg_or_def o inv2 dot2_col newg
        hstack2 zeros22 vstack_def solve4_block Let_def del: det.simps)
  from solvers_keep_store[of 2 0 None None module_store res s'] call
  have fr: "res = next_ref module_store" "\<forall>a. a \<noteq> res \<longrightarrow> objs s' a = objs module_store a"
    by blast+
  then have 1: "res = 8" "objs s' 0 = [[1, 0], [0, 1]]" "objs s' 1 = [[1, 0], [0, 1]]"
    using n o by simp_all
  from solvers_keep_store[of 2 0 None None module_store resl sl] calll
  have "resl = next_ref module_store" "\<forall>a. a \<noteq> resl \<longrightarrow> objs sl a = objs module_store a"
    by blast+
  then have 2: "objs sl 2 = [[1, 0], [0, 1]]" "objs sl 3 = [[1, 0], [0, 1]]"
    using n o by simp_all
  from solvers_keep_store[of _ _ _ _ module_store resg sg 1 0 1 1 None None None None] callg
  have "resg = next_ref module_store" "\<forall>a. a \<noteq> resg \<longrightarrow> objs sg a = objs module_store a"
    by blast+
  then have 3: "objs sg 4 = [[1, 0], [0, 1]]" "objs sg 7 = [[1, 0], [0, 1]]"
    using n o by simp_all
  from solvers_keep_store[where calls = "[Reciprocal 2 0 None None, ReciprocalLegacy 2 0 None None,
                      Generalized 1 0 1 1 None None None None]"]
  have 4: "objs (run_calls [Reciprocal 2 0 None None, ReciprocalLegacy 2 0 None None,
                      Generalized 1 0 1 1 None None None None] module_store) 0 = [[1, 0], [0, 1]]"
    by (simp add: identity2)
  show ?thesis
    unfolding call calll callg new newl newg fst_conv snd_conv
    using 1 2 3 4 by (intro conjI) simp_all
qed

end
